theory Spec2Isabelle
  imports Main "HOL-Library.AList" "HOL-Library.Char_ord" "HOL-Library.List_Lexorder"
begin

section \<open>JavaScript values used by the page-object definitions\<close>

text \<open>
  Strings are byte lists. An optional property is an \<open>option\<close>; a property that the
  source only tests for truthiness and then iterates (\<open>elements\<close>, \<open>shadow.elements\<close>,
  \<open>methods\<close>, \<open>compose\<close>) is a plain list, the absent property being the empty list.
  Objects used as dictionaries are association lists of their own properties, written
  with \<open>AList.update\<close> (a key keeps the position of its first insertion).
  \<open>hasOwnProperty\<close> and a read whose result is only copied are \<open>map_of\<close>; a plain
  read whose result is tested or used is \<open>prop_read\<close>, which also finds the
  properties every object inherits.
\<close>

datatype error = TypeError | SyntaxError

text \<open>The outcome of a call: it does not return (fuel exhausted), it throws, or it returns.\<close>

datatype 'a res = Diverged | Raised error | Returned 'a

definition bindR :: "'a res \<Rightarrow> ('a \<Rightarrow> 'b res) \<Rightarrow> 'b res" where
  "bindR m f = (case m of Diverged \<Rightarrow> Diverged | Raised e \<Rightarrow> Raised e | Returned x \<Rightarrow> f x)"

text \<open>A \<open>type\<close> property is a string or an array of capability names.\<close>

datatype jtype = TStr string | TArr "string list"

definition truthy :: "string option \<Rightarrow> bool" where
  "truthy v = (case v of None \<Rightarrow> False | Some s \<Rightarrow> s \<noteq> [])"

fun type_truthy :: "jtype option \<Rightarrow> bool" where
  "type_truthy None = False"
| "type_truthy (Some (TStr s)) = (s \<noteq> [])"
| "type_truthy (Some (TArr xs)) = True"

text \<open>\<open>Array.prototype.join\<close>, and the property key a type value is coerced to.\<close>

fun join :: "string \<Rightarrow> string list \<Rightarrow> string" where
  "join sep [] = []"
| "join sep [x] = x"
| "join sep (x # y # ys) = x @ sep @ join sep (y # ys)"

fun type_key :: "jtype \<Rightarrow> string" where
  "type_key (TStr s) = s"
| "type_key (TArr xs) = join '','' xs"

text \<open>\<open>t.length === 0\<close> for a string or an array.\<close>

fun type_length_zero :: "jtype \<Rightarrow> bool" where
  "type_length_zero (TStr s) = (s = [])"
| "type_length_zero (TArr xs) = (xs = [])"

text \<open>\<open>t.includes("/")\<close>: a substring test on a string, a membership test on an array.\<close>

fun type_includes_slash :: "jtype \<Rightarrow> bool" where
  "type_includes_slash (TStr s) = (CHR ''/'' \<in> set s)"
| "type_includes_slash (TArr xs) = (''/'' \<in> set xs)"

text \<open>The constants of \<open>DataTypes\<close>.\<close>

definition VOID :: string where "VOID = ''void''"
definition STRING :: string where "STRING = ''string''"
definition NUMBER :: string where "NUMBER = ''number''"
definition BOOLEAN :: string where "BOOLEAN = ''boolean''"
definition CONTAINER :: string where "CONTAINER = ''container''"
definition DOCUMENT :: string where "DOCUMENT = ''document''"
definition NAVIGATION :: string where "NAVIGATION = ''navigation''"
definition BASIC :: string where "BASIC = ''basic''"
definition METHOD :: string where "METHOD = ''method''"
definition PAGE_OBJECT :: string where "PAGE_OBJECT = ''pageobject''"
definition INTRINSIC :: string where "INTRINSIC = ''intrinsic''"
definition ROOT :: string where "ROOT = ''root''"

section \<open>The input definition format\<close>

text \<open>The opaque object of an \<open>applyExternal\<close> step.\<close>

datatype ext = Ext string

text \<open>
  An argument \<open>{name, type, value, predicate}\<close> and a compose step; \<open>args[0].predicate\<close>
  of a \<open>waitFor\<close> step holds steps again.
\<close>

datatype arg =
  Arg (arg_name: "string option") (arg_type: "string option") (arg_value: "string option")
      (arg_predicate: "step list option")
and step =
  Step (st_element: "string option") (st_apply: "string option")
       (st_applyExternal: "ext option") (st_chain: bool) (st_returnType: "jtype option")
       (st_args: "arg list option")

record selectorDef =
  css :: "string option"
  sel_args :: "arg list option"
  returnAll :: bool

record matcherDef =
  m_type :: "string option"
  m_args :: "arg list option"

record filterDef =
  f_apply :: "string option"
  matcher :: "matcherDef option"
  findFirst :: bool

datatype dtext = TextStr string | TextArr "string list"

record descr =
  ds_author :: "string option"
  ds_text :: "dtext option"

datatype elementDef =
  ElementDef (el_name: string) (el_type: "jtype option") (el_selector: "selectorDef option")
             (el_filter: "filterDef option") (el_public: bool) (el_description: "descr option")
             (el_elements: "elementDef list") (el_shadow: "elementDef list")

record methodDef =
  md_name :: string
  md_args :: "arg list option"
  md_returnType :: "jtype option"
  md_return :: "string option"
  md_compose :: "step list"
  md_description :: "descr option"

record pageObject =
  po_selector :: "selectorDef option"
  po_root :: bool
  po_description :: "descr option"
  po_elements :: "elementDef list"
  po_shadow :: "elementDef list"
  po_methods :: "methodDef list"
  po_artifact :: string
  po_source :: string

section \<open>The resolved member model\<close>

record elementDesc =
  e_name :: string
  e_displayName :: string
  e_description :: "string option"
  e_effectiveArgs :: "arg list"
  e_type :: "jtype option"
  e_category :: string
  e_selector :: selectorDef
  e_returnsList :: bool
  e_filter :: "filterDef option"
  e_parent :: "string option"
  e_public :: bool
  e_isInShadowRoot :: bool

text \<open>
  An element referenced by a method step is a shallow copy of the element's descriptor;
  the copy of a name that is no key of the element map is the empty object \<open>{}\<close>,
  here \<open>None\<close> (an inherited value has no enumerable property to copy).
\<close>

type_synonym refElem = "elementDesc option"

text \<open>The last \<open>apply\<close> of a method: a name, the object of an external call, or undefined.\<close>

datatype applyv = AStr string | AExt ext | AUndef

record methodDesc =
  d_displayName :: string
  d_name :: string
  d_description :: "string option"
  d_effectiveArgs :: "arg list"
  d_category :: string
  d_type :: jtype
  d_public :: bool
  d_lastStepApply :: applyv
  d_elements :: "refElem list"

record parsedPageObject =
  p_uri :: string
  p_source :: "string option"
  p_elements :: "(string \<times> elementDesc) list"
  p_methods :: "(string \<times> methodDesc) list"
  p_author :: "string option"
  p_description :: "string option"

section \<open>Definition resolver: elements\<close>

text \<open>\<open>#processDescription\<close>, given the \<open>description\<close> property of the fragment.\<close>

definition processDescription :: "descr option \<Rightarrow> string option" where
  "processDescription description =
     (case description of
        None \<Rightarrow> None
      | Some d \<Rightarrow>
          (case ds_text d of
             None \<Rightarrow> None
           | Some (TextStr s) \<Rightarrow> if s \<noteq> [] then Some (join '' '' [s]) else None
           | Some (TextArr xs) \<Rightarrow> Some (join '' '' xs)))"

text \<open>\<open>toUpperCase\<close> on one character, for the letters of ASCII.\<close>

definition toUpperCase :: "char \<Rightarrow> char" where
  "toUpperCase c =
     (if CHR ''a'' \<le> c \<and> c \<le> CHR ''z'' then char_of (of_char c - (32::nat)) else c)"

definition getElementGetterMethodName :: "string \<Rightarrow> string" where
  "getElementGetterMethodName elementName =
     ''get'' @ map toUpperCase (take 1 elementName) @ drop 1 elementName"

definition empty_selector :: selectorDef where
  "empty_selector = \<lparr>css = None, sel_args = None, returnAll = False\<rparr>"

text \<open>
  \<open>#processElementObject\<close>. The source pushes onto the array \<open>elementArgs\<close> it is
  given, a fresh copy made by its caller; the array after the call is the descriptor's
  \<open>effectiveArgs\<close>.
\<close>

definition processElementObject ::
  "elementDef \<Rightarrow> string option \<Rightarrow> arg list \<Rightarrow> bool \<Rightarrow> (string \<times> pageObject) list
     \<Rightarrow> elementDesc" where
  "processElementObject elementObject parentName elementArgs isInShadowRoot allPageObjects =
     (let selector =
            (case el_selector elementObject of
               None \<Rightarrow> empty_selector
             | Some s \<Rightarrow> if truthy (css s) then s else empty_selector);
          elementName = getElementGetterMethodName (el_name elementObject);
          elementArgs1 =
            (case sel_args selector of None \<Rightarrow> elementArgs | Some a \<Rightarrow> elementArgs @ a);
          elementArgs2 =
            (if returnAll selector then
               (case el_filter elementObject of
                  None \<Rightarrow> elementArgs1
                | Some f \<Rightarrow>
                    (case matcher f of
                       None \<Rightarrow> elementArgs1
                     | Some m \<Rightarrow>
                         (case m_args m of
                            None \<Rightarrow> elementArgs1
                          | Some ma \<Rightarrow> elementArgs1 @ ma)))
             else elementArgs1);
          returnsList =
            (returnAll selector \<or>
             (case el_filter elementObject of None \<Rightarrow> False | Some f \<Rightarrow> findFirst f));
          category =
            (case el_type elementObject of
               Some (TStr t) \<Rightarrow>
                 if t \<noteq> [] then
                   (if t = CONTAINER then CONTAINER
                    else if map_of allPageObjects t \<noteq> None then PAGE_OBJECT
                    else BASIC)
                 else BASIC
             | _ \<Rightarrow> BASIC);
          description = processDescription (el_description elementObject)
      in \<lparr>e_name = el_name elementObject,
          e_displayName = elementName,
          e_description = description,
          e_effectiveArgs = elementArgs2,
          e_type = el_type elementObject,
          e_category = category,
          e_selector = selector,
          e_returnsList = returnsList,
          e_filter = el_filter elementObject,
          e_parent = parentName,
          e_public = el_public elementObject,
          e_isInShadowRoot = isInShadowRoot\<rparr>)"

text \<open>
  \<open>#processElements\<close> on a fragment with the given \<open>elements\<close> and
  \<open>shadow.elements\<close>; the last argument is \<open>parsedPageObject.elements\<close>, returned
  updated. \<open>processElements_forEach\<close> is one of the two \<open>forEach\<close> loops.
\<close>

function processElements ::
  "elementDef list \<Rightarrow> elementDef list \<Rightarrow> string option \<Rightarrow> arg list
     \<Rightarrow> (string \<times> pageObject) list \<Rightarrow> (string \<times> elementDesc) list
     \<Rightarrow> (string \<times> elementDesc) list"
and processElements_forEach ::
  "bool \<Rightarrow> elementDef list \<Rightarrow> string option \<Rightarrow> arg list
     \<Rightarrow> (string \<times> pageObject) list \<Rightarrow> (string \<times> elementDesc) list
     \<Rightarrow> (string \<times> elementDesc) list"
where
  "processElements els shadow parentName parentArgs allPageObjects parsedElements =
     processElements_forEach True shadow parentName parentArgs allPageObjects
       (processElements_forEach False els parentName parentArgs allPageObjects parsedElements)"
| "processElements_forEach isInShadowRoot [] parentName parentArgs allPageObjects parsedElements =
     parsedElements"
| "processElements_forEach isInShadowRoot (element # rest) parentName parentArgs allPageObjects
       parsedElements =
     (let elementArgs = parentArgs;
          processedElement =
            processElementObject element parentName elementArgs isInShadowRoot allPageObjects;
          parsedElements1 = AList.update (el_name element) processedElement parsedElements;
          parsedElements2 =
            processElements (el_elements element) (el_shadow element) (Some (el_name element))
              (e_effectiveArgs processedElement) allPageObjects parsedElements1
      in processElements_forEach isInShadowRoot rest parentName parentArgs allPageObjects
           parsedElements2)"
  by pat_completeness auto
termination
  apply (relation "measure (\<lambda>x. case x of
          Inl (els, shadow, _) \<Rightarrow> Suc (size_list size els + size_list size shadow)
        | Inr (_, xs, _) \<Rightarrow> size_list size xs)")
    apply simp_all
  subgoal for isInShadowRoot element by (cases element) simp
  done

section \<open>Definition resolver: methods\<close>

text \<open>
  The state of a \<open>PageObjectDatabase\<close> during one pass. \<open>allPageObjects\<close> is the
  collection of raw definitions of the pass: it is part of the state because
  \<open>#processMethod\<close> pushes onto the \<open>args\<close> array of a raw method definition. A raw
  definition is referred to by its URI, one of its methods by its index. Parsed page
  objects are mutable objects: \<open>objs\<close> is the store holding them, a reference is an
  index into it, and \<open>parsedPageObjectCache\<close> maps a URI to a reference.
  \<open>console\<close> collects what \<open>console.log\<close> prints.
\<close>

record db =
  allPageObjects :: "(string \<times> pageObject) list"
  objs :: "parsedPageObject list"
  parsedPageObjectCache :: "(string \<times> nat) list"
  console :: "string list"
  rootPageObjectUris :: "string list"

text \<open>
  The catalog \<open>#intrinsicMethods\<close>, by interface and in the order of the source, each
  method with its name and return type.
\<close>

definition intrinsicMethods :: "(string \<times> (string \<times> string) list) list" where
  "intrinsicMethods =
     [(''basic'',
        [(''containsElement'', BOOLEAN), (''waitFor'', VOID), (''getAttribute'', STRING),
         (''getClassAttribute'', STRING), (''getCssPropertyValue'', STRING),
         (''getText'', STRING), (''getTitle'', STRING), (''getValue'', STRING),
         (''isEnabled'', BOOLEAN), (''isFocused'', BOOLEAN), (''isPresent'', BOOLEAN),
         (''isVisible'', BOOLEAN), (''waitForAbsence'', VOID), (''waitForInvisible'', VOID),
         (''waitForVisible'', VOID)]),
      (''actionable'',
        [(''blur'', VOID), (''focus'', VOID), (''moveTo'', VOID), (''scrollToCenter'', VOID),
         (''scrollToTop'', VOID)]),
      (''clickable'',
        [(''click'', VOID), (''doubleClick'', VOID), (''rightClick'', VOID),
         (''clickAndHold'', VOID)]),
      (''editable'',
        [(''clear'', VOID), (''clearAndType'', VOID), (''press'', VOID), (''setText'', VOID)]),
      (''draggable'', [(''dragAndDrop'', VOID), (''dragAndDropByOffset'', VOID)]),
      (''list'', [(''size'', NUMBER)]),
      (''element'', [(''returnSelf'', VOID)]),
      (''document'', []),
      (''navigation'', [])]"

text \<open>
  A plain property read \<open>obj[key]\<close> on an object literal finds the own property of
  that name and otherwise a property inherited from \<open>Object.prototype\<close>; the
  inherited values are functions, or \<open>Object.prototype\<close> itself for \<open>__proto__\<close>,
  all of them truthy. \<open>hasOwnProperty\<close> sees own properties only.
\<close>

definition prototype_keys :: "string list" where
  "prototype_keys =
     [''constructor'', ''__defineGetter__'', ''__defineSetter__'', ''hasOwnProperty'',
      ''__lookupGetter__'', ''__lookupSetter__'', ''isPrototypeOf'', ''propertyIsEnumerable'',
      ''toString'', ''valueOf'', ''__proto__'', ''toLocaleString'']"

datatype 'a lookup = Own 'a | Inherited | Missing

definition prop_read :: "(string \<times> 'a) list \<Rightarrow> string \<Rightarrow> 'a lookup" where
  "prop_read obj key =
     (case map_of obj key of
        Some v \<Rightarrow> Own v
      | None \<Rightarrow> if key \<in> set prototype_keys then Inherited else Missing)"

text \<open>A reference to a method object: a declared method of a raw definition, or a temporary one.\<close>

datatype mref = Declared nat | Temp methodDef

definition the_method :: "db \<Rightarrow> string \<Rightarrow> mref \<Rightarrow> methodDef option" where
  "the_method st pageObject r =
     (case r of
        Temp m \<Rightarrow> Some m
      | Declared i \<Rightarrow>
          (case map_of (allPageObjects st) pageObject of
             None \<Rightarrow> None
           | Some d \<Rightarrow> if i < length (po_methods d) then Some (po_methods d ! i) else None))"

text \<open>Writing the \<open>args\<close> array of the \<open>i\<close>-th declared method of a raw definition.\<close>

definition set_method_args :: "string \<Rightarrow> nat \<Rightarrow> arg list \<Rightarrow> db \<Rightarrow> db" where
  "set_method_args pageObject i a st =
     st\<lparr>allPageObjects :=
          AList.map_entry pageObject
            (\<lambda>d. d\<lparr>po_methods := (po_methods d)[i := (po_methods d ! i)\<lparr>md_args := Some a\<rparr>]\<rparr>)
            (allPageObjects st)\<rparr>"

text \<open>Writing \<open>parsedPageObject.methods[name]\<close> through a reference.\<close>

definition set_parsed_method :: "nat \<Rightarrow> string \<Rightarrow> methodDesc \<Rightarrow> db \<Rightarrow> db" where
  "set_parsed_method parsedPageObject name d st =
     st\<lparr>objs := (objs st)[parsedPageObject :=
            (objs st ! parsedPageObject)
              \<lparr>p_methods := AList.update name d (p_methods (objs st ! parsedPageObject))\<rparr>]\<rparr>"

record stepInfo =
  si_referencedElements :: "refElem list"
  si_returnType :: jtype
  si_returnsList :: bool

text \<open>The local variables of \<open>#processMethod\<close> that its loop over the steps assigns.\<close>

record loopvars =
  methodType :: jtype
  lastStepReturnType :: jtype
  lastMethodStepApply :: applyv
  referencedElements :: "refElem list"

fun forEachR :: "('a \<Rightarrow> 's \<Rightarrow> 's res) \<Rightarrow> 'a list \<Rightarrow> 's \<Rightarrow> 's res" where
  "forEachR f [] s = Returned s"
| "forEachR f (x # xs) s = bindR (f x s) (forEachR f xs)"

definition refName :: "refElem \<Rightarrow> string option" where
  "refName r = map_option e_name r"

definition refType :: "refElem \<Rightarrow> jtype option" where
  "refType r = (case r of None \<Rightarrow> None | Some e \<Rightarrow> e_type e)"

text \<open>The first index of a declared method with the given name (the \<open>while\<close> loop of the search).\<close>

fun findMethod :: "string \<Rightarrow> methodDef list \<Rightarrow> nat \<Rightarrow> nat option" where
  "findMethod name [] methodIndex = None"
| "findMethod name (m # ms) methodIndex =
     (if md_name m = name then Some methodIndex else findMethod name ms (Suc methodIndex))"

type_synonym parseFn = "string \<Rightarrow> db \<Rightarrow> (nat \<times> db) res"
type_synonym methodFn = "string \<Rightarrow> mref \<Rightarrow> nat \<Rightarrow> db \<Rightarrow> (methodDesc \<times> db) res"

text \<open>\<open>a || b\<close> on a type and on a string.\<close>

fun type_or :: "jtype option \<Rightarrow> jtype \<Rightarrow> jtype" where
  "type_or None d = d"
| "type_or (Some (TStr s)) d = (if s = [] then d else TStr s)"
| "type_or (Some (TArr xs)) d = TArr xs"

definition str_or :: "string option \<Rightarrow> string \<Rightarrow> string" where
  "str_or v d = (case v of None \<Rightarrow> d | Some s \<Rightarrow> if s = [] then d else s)"

text \<open>
  \<open>#processStep\<close>, in two parts: the block on \<open>methodStep.element\<close> and the block on
  \<open>methodStep.apply\<close>. The parameter \<open>processMethod\<close> is the recursive call.
\<close>

definition processStep_element :: "step \<Rightarrow> parsedPageObject \<Rightarrow> stepInfo \<Rightarrow> stepInfo" where
  "processStep_element methodStep parsed stepInfo =
     (case st_element methodStep of
        None \<Rightarrow> stepInfo
      | Some element \<Rightarrow>
          if element = [] \<or> element = ROOT then stepInfo
          else if element = DOCUMENT then stepInfo\<lparr>si_returnType := TStr DOCUMENT\<rparr>
          else if element = NAVIGATION then stepInfo\<lparr>si_returnType := TStr NAVIGATION\<rparr>
          else
            let referencedElement =
                  (case map_of (p_elements parsed) element of
                     None \<Rightarrow> None
                   | Some e \<Rightarrow>
                       (case st_args methodStep of
                          Some (a # _) \<Rightarrow>
                            if e_category e = CONTAINER \<and> arg_type a = Some PAGE_OBJECT
                            then Some (e\<lparr>e_type := map_option TStr (arg_value a)\<rparr>)
                            else Some e
                        | _ \<Rightarrow> Some e))
            in stepInfo
                 \<lparr>si_referencedElements := si_referencedElements stepInfo @ [referencedElement],
                  si_returnType := type_or (refType referencedElement) (TStr BASIC),
                  si_returnsList :=
                    (case referencedElement of None \<Rightarrow> False | Some e \<Rightarrow> e_returnsList e)\<rparr>)"

definition processStep_apply ::
  "methodFn \<Rightarrow> string \<Rightarrow> step \<Rightarrow> nat \<Rightarrow> stepInfo \<Rightarrow> db \<Rightarrow> (stepInfo \<times> db) res" where
  "processStep_apply processMethod pageObject methodStep parsedPageObject stepInfo st =
     (case st_apply methodStep of
        None \<Rightarrow> Returned (stepInfo, st)
      | Some apply \<Rightarrow>
          if apply = [] then Returned (stepInfo, st)
          else if apply = ''waitFor'' then
            (case st_args methodStep of
               Some (a # _) \<Rightarrow>
                 let waitForMethod =
                       \<lparr>md_name = ''tempWaitForMethod'', md_args = None, md_returnType = None,
                        md_return = None,
                        md_compose = (case arg_predicate a of None \<Rightarrow> [] | Some p \<Rightarrow> p),
                        md_description = None\<rparr>
                 in bindR (processMethod pageObject (Temp waitForMethod) parsedPageObject st)
                      (\<lambda>(parsedWaitForMethod, st1).
                         Returned
                           (stepInfo
                              \<lparr>si_referencedElements :=
                                 si_referencedElements stepInfo @ d_elements parsedWaitForMethod,
                               si_returnType := d_type parsedWaitForMethod\<rparr>,
                            st1))
             | _ \<Rightarrow> Raised TypeError)
          else if \<not> truthy (st_element methodStep) then
            (if apply = ''returnSelf'' then Returned (stepInfo\<lparr>si_returnType := TStr VOID\<rparr>, st)
             else
               (case map_of (p_methods (objs st ! parsedPageObject)) apply of
                  Some m \<Rightarrow>
                    Returned
                      (stepInfo
                         \<lparr>si_referencedElements := si_referencedElements stepInfo @ d_elements m,
                          si_returnType := d_type m\<rparr>,
                       st)
                | None \<Rightarrow>
                    (case prop_read (allPageObjects st) pageObject of
                       Missing \<Rightarrow> Raised TypeError
                     | Inherited \<Rightarrow> Returned (stepInfo, st)
                     | Own d \<Rightarrow>
                         (case findMethod apply (po_methods d) 0 of
                            None \<Rightarrow> Returned (stepInfo, st)
                          | Some methodIndex \<Rightarrow>
                              bindR (processMethod pageObject (Declared methodIndex)
                                       parsedPageObject st)
                                (\<lambda>(referencedMethod, st1).
                                   Returned
                                     (stepInfo\<lparr>si_returnType := d_type referencedMethod\<rparr>,
                                      set_parsed_method parsedPageObject apply referencedMethod
                                        st1))))))
          else
            (case concat (map (\<lambda>(interface, interfaceMethods).
                                 filter (\<lambda>interfaceMethod. fst interfaceMethod = apply)
                                   interfaceMethods) intrinsicMethods) of
               [] \<Rightarrow> Returned (stepInfo, st)
             | candidate # _ \<Rightarrow> Returned (stepInfo\<lparr>si_returnType := TStr (snd candidate)\<rparr>, st)))"

definition processStep ::
  "methodFn \<Rightarrow> string \<Rightarrow> step \<Rightarrow> nat \<Rightarrow> db \<Rightarrow> (stepInfo \<times> db) res" where
  "processStep processMethod pageObject methodStep parsedPageObject st =
     (let stepInfo =
            \<lparr>si_referencedElements = [], si_returnType = TStr [], si_returnsList = False\<rparr>
      in if st_applyExternal methodStep \<noteq> None
         then Returned (stepInfo\<lparr>si_returnType := TStr VOID\<rparr>, st)
         else processStep_apply processMethod pageObject methodStep parsedPageObject
                (processStep_element methodStep (objs st ! parsedPageObject) stepInfo) st)"

text \<open>
  The callback of \<open>methodSteps.forEach\<close> in \<open>#processMethod\<close>. Its \<open>return\<close> leaves
  the callback, and \<open>forEach\<close> goes on with the next step. \<open>composeStep_rest\<close> is the
  callback from the test of \<open>applyExternal\<close> on, with the page object and the parsed
  page object the step works on.
\<close>

definition abort_message :: "string \<Rightarrow> string \<Rightarrow> string \<Rightarrow> string" where
  "abort_message name uri lastType =
     ''Aborting processing of method '' @ name @ '' in '' @ uri @
     ''; method has a step that refers to '' @ lastType @ '' which does not exist.''"

definition composeStep_rest ::
  "methodFn \<Rightarrow> methodDef \<Rightarrow> string \<Rightarrow> nat \<Rightarrow> step \<Rightarrow> loopvars \<times> db \<Rightarrow> (loopvars \<times> db) res" where
  "composeStep_rest processMethod method stepPageObject stepParsedPageObject methodStep s =
     (case s of (v, st) \<Rightarrow>
        let v1 = (case st_applyExternal methodStep of
                    None \<Rightarrow> v
                  | Some x \<Rightarrow>
                      if type_length_zero (methodType v)
                      then v\<lparr>methodType := TStr (str_or (md_return method) VOID),
                             lastMethodStepApply := AExt x\<rparr>
                      else v);
            v2 = (case st_apply methodStep of
                    None \<Rightarrow> v1
                  | Some apply \<Rightarrow> if apply = [] then v1 else v1\<lparr>lastMethodStepApply := AStr apply\<rparr>)
        in bindR (processStep processMethod stepPageObject methodStep stepParsedPageObject st)
             (\<lambda>(stepInfo, st1).
                let unreferencedElements =
                      filter (\<lambda>stepElement.
                                \<not> list_ex (\<lambda>existingElementRef.
                                              refName existingElementRef = refName stepElement)
                                    (referencedElements v2))
                        (si_referencedElements stepInfo)
                in Returned
                     (v2\<lparr>lastStepReturnType :=
                           type_or (st_returnType methodStep) (si_returnType stepInfo),
                         referencedElements := referencedElements v2 @ unreferencedElements\<rparr>,
                      st1)))"

definition composeStep ::
  "parseFn \<Rightarrow> methodFn \<Rightarrow> string \<Rightarrow> methodDef \<Rightarrow> nat \<Rightarrow> step \<Rightarrow> loopvars \<times> db
     \<Rightarrow> (loopvars \<times> db) res" where
  "composeStep parsePageObject processMethod pageObject method parsedPageObject methodStep s =
     (case s of (v, st) \<Rightarrow>
        if st_chain methodStep \<and> lastStepReturnType v \<noteq> TStr [] then
          (if prop_read (allPageObjects st) (type_key (lastStepReturnType v)) = Missing then
             Returned
               (v, st\<lparr>console := console st @
                        [abort_message (md_name method) (p_uri (objs st ! parsedPageObject))
                           (type_key (lastStepReturnType v))]\<rparr>)
           else
             bindR (parsePageObject (type_key (lastStepReturnType v)) st)
               (\<lambda>(stepParsedPageObject, st1).
                  composeStep_rest processMethod method (type_key (lastStepReturnType v))
                    stepParsedPageObject methodStep (v, st1)))
        else composeStep_rest processMethod method pageObject parsedPageObject methodStep (v, st))"

definition methodDescriptor ::
  "methodDef \<Rightarrow> arg list \<Rightarrow> jtype \<Rightarrow> applyv \<Rightarrow> refElem list \<Rightarrow> methodDesc" where
  "methodDescriptor method args mtype lastApply elems =
     \<lparr>d_displayName = md_name method,
      d_name = md_name method,
      d_description = processDescription (md_description method),
      d_effectiveArgs = args,
      d_category = METHOD,
      d_type = mtype,
      d_public = True,
      d_lastStepApply = lastApply,
      d_elements = elems\<rparr>"

text \<open>
  \<open>args.push(...)\<close> on \<open>const args = method.args || []\<close>: the array of a declared
  method that has an \<open>args\<close> property is the array of the raw definition itself, so
  the push is a write to the raw definition. The descriptor that is returned holds the
  content of the array at that moment. (In the source it holds the array itself; a later
  push can only come from a later parse of the same page object, which replaces the
  descriptor in the cache by one with the later content.)
\<close>

definition push_args :: "string \<Rightarrow> mref \<Rightarrow> arg list \<Rightarrow> db \<Rightarrow> arg list \<times> db" where
  "push_args pageObject r pushed st =
     (case the_method st pageObject r of
        None \<Rightarrow> (pushed, st)
      | Some method \<Rightarrow>
          (case md_args method of
             None \<Rightarrow> (pushed, st)
           | Some a \<Rightarrow>
               (a @ pushed,
                case r of
                  Declared i \<Rightarrow> set_method_args pageObject i (a @ pushed) st
                | Temp m \<Rightarrow> st)))"

definition processMethod_body :: "parseFn \<Rightarrow> methodFn \<Rightarrow> methodFn" where
  "processMethod_body parsePageObject processMethod pageObject r parsedPageObject st =
     (case the_method st pageObject r of
        None \<Rightarrow> Raised TypeError
      | Some method \<Rightarrow>
          (case map_of (p_methods (objs st ! parsedPageObject)) (md_name method) of
             Some parsedMethod \<Rightarrow> Returned (parsedMethod, st)
           | None \<Rightarrow>
               let methodType0 = type_or (md_returnType method) (TStr []) in
               if \<not> type_length_zero methodType0 then
                 Returned
                   (methodDescriptor method (case md_args method of None \<Rightarrow> [] | Some a \<Rightarrow> a)
                      methodType0 (AStr []) [],
                    st)
               else
                 bindR (forEachR
                          (composeStep parsePageObject processMethod pageObject method
                             parsedPageObject)
                          (md_compose method)
                          (\<lparr>methodType = methodType0, lastStepReturnType = TStr [],
                            lastMethodStepApply = AStr [], referencedElements = []\<rparr>, st))
                   (\<lambda>(v, st1).
                      case push_args pageObject r
                             (concat (map (\<lambda>referencedElement.
                                             case referencedElement of
                                               None \<Rightarrow> []
                                             | Some e \<Rightarrow> e_effectiveArgs e)
                                        (referencedElements v))) st1 of
                        (args, st2) \<Rightarrow>
                          Returned
                            (methodDescriptor method args (lastStepReturnType v)
                               (lastMethodStepApply v) (referencedElements v),
                             st2))))"

definition processMethods :: "methodFn \<Rightarrow> string \<Rightarrow> nat \<Rightarrow> db \<Rightarrow> db res" where
  "processMethods processMethod pageObject parsedPageObject st =
     (case map_of (allPageObjects st) pageObject of
        None \<Rightarrow> Returned st
      | Some d \<Rightarrow>
          forEachR
            (\<lambda>i st1.
               bindR (processMethod pageObject (Declared i) parsedPageObject st1)
                 (\<lambda>(returnValue, st2).
                    Returned
                      (set_parsed_method parsedPageObject (md_name (po_methods d ! i))
                         returnValue st2)))
            [0..<length (po_methods d)] st)"

text \<open>
  \<open>#parsePageObject\<close> from its second statement on, for the value \<open>pageObject\<close> read
  from \<open>allPageObjects\<close> and its \<open>source\<close>. The write
  \<open>this.#parsedPageObjectCache[pageObjectUri] = parsed\<close> makes an own property, except
  under the name \<open>__proto__\<close>, where it sets the prototype of the cache.
\<close>

definition cache_write :: "string \<Rightarrow> nat \<Rightarrow> (string \<times> nat) list \<Rightarrow> (string \<times> nat) list" where
  "cache_write pageObjectUri ref cache =
     (if pageObjectUri = ''__proto__'' then cache else AList.update pageObjectUri ref cache)"

definition parsePageObject_of ::
  "methodFn \<Rightarrow> string \<Rightarrow> pageObject \<Rightarrow> string option \<Rightarrow> db \<Rightarrow> (nat \<times> db) res" where
  "parsePageObject_of processMethod pageObjectUri pageObject source st =
     (let rootElements =
            (case po_selector pageObject of
               None \<Rightarrow> []
             | Some sel \<Rightarrow>
                 AList.update ROOT
                   (processElementObject
                      (ElementDef ROOT (Some (TStr pageObjectUri)) (Some sel) None False None
                         [] [])
                      None [] False (allPageObjects st)) []);
          parsed =
            \<lparr>p_uri = pageObjectUri,
             p_source = source,
             p_elements =
               processElements (po_elements pageObject) (po_shadow pageObject) None []
                 (allPageObjects st) rootElements,
             p_methods = [],
             p_author =
               (case po_description pageObject of None \<Rightarrow> None | Some d \<Rightarrow> ds_author d),
             p_description = processDescription (po_description pageObject)\<rparr>;
          ref = length (objs st)
      in bindR (processMethods processMethod pageObjectUri ref (st\<lparr>objs := objs st @ [parsed]\<rparr>))
           (\<lambda>st1.
              Returned
                (ref,
                 st1\<lparr>parsedPageObjectCache :=
                       cache_write pageObjectUri ref (parsedPageObjectCache st1)\<rparr>)))"

text \<open>
  What \<open>#parsePageObject\<close> reads from a value inherited from \<open>Object.prototype\<close>:
  every property it asks for is undefined.
\<close>

definition inherited_value :: pageObject where
  "inherited_value =
     \<lparr>po_selector = None, po_root = False, po_description = None, po_elements = [],
      po_shadow = [], po_methods = [], po_artifact = [], po_source = []\<rparr>"

definition parsePageObject_body :: "methodFn \<Rightarrow> parseFn" where
  "parsePageObject_body processMethod pageObjectUri st =
     (case prop_read (allPageObjects st) pageObjectUri of
        Missing \<Rightarrow> Raised TypeError
      | Inherited \<Rightarrow> parsePageObject_of processMethod pageObjectUri inherited_value None st
      | Own pageObject \<Rightarrow>
          parsePageObject_of processMethod pageObjectUri pageObject
            (Some (po_source pageObject)) st)"

text \<open>
  \<open>#parsePageObject\<close> and \<open>#processMethod\<close> call each other. The first argument bounds
  the depth of these calls: a call that would go deeper does not return.
\<close>

fun parsePageObject :: "nat \<Rightarrow> parseFn"
and processMethod :: "nat \<Rightarrow> methodFn"
where
  "parsePageObject 0 pageObjectUri st = Diverged"
| "parsePageObject (Suc n) pageObjectUri st =
     parsePageObject_body (processMethod n) pageObjectUri st"
| "processMethod 0 pageObject r parsedPageObject st = Diverged"
| "processMethod (Suc n) pageObject r parsedPageObject st =
     processMethod_body (parsePageObject n) (processMethod n) pageObject r parsedPageObject st"

text \<open>
  \<open>reloadDatabase\<close>, given the content of \<open>settings.pageObjects\<close>: for each artifact,
  the parsed JSON of each of its page objects by URI, with the JSON text as \<open>source\<close>.
\<close>

definition reloadDatabase ::
  "nat \<Rightarrow> (string \<times> (string \<times> pageObject) list) list \<Rightarrow> db \<Rightarrow> (nat \<times> db) res" where
  "reloadDatabase fuel settings_pageObjects this =
     (let definitions =
            concat (map (\<lambda>(artifactName, artifactContents).
                           map (\<lambda>(pageObjectUri, definition).
                                  (pageObjectUri, definition\<lparr>po_artifact := artifactName\<rparr>))
                             artifactContents) settings_pageObjects);
          all = fold (\<lambda>(pageObjectUri, definition). AList.update pageObjectUri definition)
                  definitions [];
          roots = map fst (filter (\<lambda>(pageObjectUri, definition).
                                     po_root definition \<and>
                                     (case po_selector definition of
                                        None \<Rightarrow> False
                                      | Some sel \<Rightarrow> truthy (css sel))) definitions);
          this1 = this\<lparr>rootPageObjectUris := sort roots, parsedPageObjectCache := [],
                       allPageObjects := all\<rparr>
      in bindR (forEachR (\<lambda>pageObjectUri st.
                            bindR (parsePageObject fuel pageObjectUri st)
                              (\<lambda>(parsed, st1). Returned st1))
                  (map fst all) this1)
           (\<lambda>st. Returned (length (parsedPageObjectCache st), st)))"


section \<open>Live element walker\<close>

text \<open>
  The document is a parameter: its nodes, what \<open>querySelectorAll\<close> returns under a node
  (or the \<open>SyntaxError\<close> it throws), the shadow root of a node, the value of a property
  of a node, and \<open>getAttribute\<close>. Property values are strings, numbers, booleans,
  \<open>null\<close> or \<open>undefined\<close>.
\<close>

type_synonym node = nat

datatype jsval = JUndefined | JNull | JStr string | JNum int | JBool bool

record dom =
  querySelectorAll :: "node \<Rightarrow> string \<Rightarrow> error + node list"
  shadowRoot :: "node \<Rightarrow> node option"
  property :: "node \<Rightarrow> string \<Rightarrow> jsval"
  getAttribute :: "node \<Rightarrow> string \<Rightarrow> string option"

definition qsa :: "dom \<Rightarrow> node \<Rightarrow> string \<Rightarrow> node list res" where
  "qsa d n sel = (case querySelectorAll d n sel of Inl e \<Rightarrow> Raised e | Inr ns \<Rightarrow> Returned ns)"

text \<open>\<open>querySelector\<close> is the first node of \<open>querySelectorAll\<close>, or \<open>null\<close>.\<close>

definition querySelector :: "dom \<Rightarrow> node \<Rightarrow> string \<Rightarrow> node option res" where
  "querySelector d n sel =
     bindR (qsa d n sel) (\<lambda>ns. Returned (case ns of [] \<Rightarrow> None | x # xs \<Rightarrow> Some x))"

text \<open>\<open>selectorString.match(/\%[ds]/g)\<close>; the empty list stands for \<open>null\<close>.\<close>

fun paramMarkers :: "string \<Rightarrow> string list" where
  "paramMarkers (a # b # r) =
     (if a = CHR ''%'' \<and> (b = CHR ''d'' \<or> b = CHR ''s'') then [a, b] # paramMarkers r
      else paramMarkers (b # r))"
| "paramMarkers r = []"

text \<open>
  \<open>s.replace(pattern, replacement)\<close> with a string pattern: the first occurrence is
  replaced, and the replacement patterns \<open>$$\<close>, \<open>$&\<close>, \<open>$`\<close> and \<open>$'\<close> are expanded.
\<close>

fun find_sub :: "string \<Rightarrow> string \<Rightarrow> (string \<times> string) option" where
  "find_sub pat [] = (if pat = [] then Some ([], []) else None)"
| "find_sub pat (c # cs) =
     (if take (length pat) (c # cs) = pat then Some ([], drop (length pat) (c # cs))
      else map_option (\<lambda>(pre, post). (c # pre, post)) (find_sub pat cs))"

fun getSubstitution :: "string \<Rightarrow> string \<Rightarrow> string \<Rightarrow> string \<Rightarrow> string" where
  "getSubstitution matched pre post (x # y # r) =
     (if x = CHR ''$'' \<and> y = CHR ''$'' then CHR ''$'' # getSubstitution matched pre post r
      else if x = CHR ''$'' \<and> y = CHR ''&'' then matched @ getSubstitution matched pre post r
      else if x = CHR ''$'' \<and> y = CHR 0x60 then pre @ getSubstitution matched pre post r
      else if x = CHR ''$'' \<and> y = CHR 0x27 then post @ getSubstitution matched pre post r
      else x # getSubstitution matched pre post (y # r))"
| "getSubstitution matched pre post r = r"

definition replace_first :: "string \<Rightarrow> string \<Rightarrow> string \<Rightarrow> string" where
  "replace_first s pat replacement =
     (case find_sub pat s of
        None \<Rightarrow> s
      | Some (pre, post) \<Rightarrow> pre @ getSubstitution pat pre post replacement @ post)"

text \<open>\<open>s.includes(sub)\<close> on strings.\<close>

fun includes_str :: "string \<Rightarrow> string \<Rightarrow> bool" where
  "includes_str [] sub = (sub = [])"
| "includes_str (c # cs) sub = (take (length sub) (c # cs) = sub \<or> includes_str cs sub)"

record filterInfo =
  fi_apply :: applyv
  fi_matcherType :: "string option"
  fi_args :: "arg list"
  fi_findFirst :: bool
  fi_attribute :: string
  fi_additionalElements :: "refElem list"

text \<open>A member descriptor handed to the walker: of a method or of an element.\<close>

datatype member = MethodMember methodDesc | ElementMember elementDesc

text \<open>The property key an \<open>apply\<close> value is coerced to.\<close>

fun apply_key :: "applyv \<Rightarrow> string" where
  "apply_key (AStr s) = s"
| "apply_key (AExt x) = ''[object Object]''"
| "apply_key AUndef = ''undefined''"

text \<open>
  The value of \<open>currentDescriptor\<close> in \<open>#getFilterInfo\<close>: the descriptor of a method
  or of an element, or a value inherited from \<open>Object.prototype\<close>, which has none of
  the properties the function reads.
\<close>

datatype descriptor =
  MethodDescriptor methodDesc | ElementDescriptor elementDesc | InheritedValue

fun descriptor_type :: "descriptor \<Rightarrow> jtype option" where
  "descriptor_type (MethodDescriptor m) = Some (d_type m)"
| "descriptor_type (ElementDescriptor e) = e_type e"
| "descriptor_type InheritedValue = None"

fun descriptor_lastStepApply :: "descriptor \<Rightarrow> applyv" where
  "descriptor_lastStepApply (MethodDescriptor m) = d_lastStepApply m"
| "descriptor_lastStepApply (ElementDescriptor e) = AUndef"
| "descriptor_lastStepApply InheritedValue = AUndef"

text \<open>\<open>currentDescriptor.elements\<close> when the category is \<open>method\<close>.\<close>

fun descriptor_additionalElements :: "descriptor \<Rightarrow> refElem list" where
  "descriptor_additionalElements (MethodDescriptor m) = d_elements m"
| "descriptor_additionalElements (ElementDescriptor e) = []"
| "descriptor_additionalElements InheritedValue = []"

text \<open>
  The \<open>while\<close> loop of \<open>#getFilterInfo\<close>; the first argument bounds the number of
  evaluations of its condition.
\<close>

fun getFilterInfo_loop ::
  "nat \<Rightarrow> (string \<Rightarrow> parsedPageObject option) \<Rightarrow> descriptor \<Rightarrow> applyv \<Rightarrow> descriptor res" where
  "getFilterInfo_loop 0 pageObjectResolver currentDescriptor effectiveApply = Diverged"
| "getFilterInfo_loop (Suc n) pageObjectResolver currentDescriptor effectiveApply =
     (case descriptor_type currentDescriptor of
        None \<Rightarrow> Returned currentDescriptor
      | Some t \<Rightarrow>
          if type_truthy (Some t) \<and> type_includes_slash t then
            (case pageObjectResolver (type_key t) of
               None \<Rightarrow> Raised TypeError
             | Some parsedPageObject \<Rightarrow>
                 (case prop_read (p_methods parsedPageObject) (apply_key effectiveApply) of
                    Own m \<Rightarrow>
                      getFilterInfo_loop n pageObjectResolver (MethodDescriptor m)
                        (d_lastStepApply m)
                  | Inherited \<Rightarrow> getFilterInfo_loop n pageObjectResolver InheritedValue AUndef
                  | Missing \<Rightarrow>
                      (case prop_read (p_elements parsedPageObject)
                              (apply_key effectiveApply) of
                         Missing \<Rightarrow> Raised TypeError
                       | Inherited \<Rightarrow>
                           getFilterInfo_loop n pageObjectResolver InheritedValue effectiveApply
                       | Own e \<Rightarrow>
                           getFilterInfo_loop n pageObjectResolver (ElementDescriptor e)
                             effectiveApply)))
          else Returned currentDescriptor)"

definition getFilterInfo ::
  "nat \<Rightarrow> (string \<Rightarrow> parsedPageObject option) \<Rightarrow> refElem \<Rightarrow> arg list
     \<Rightarrow> filterInfo option res" where
  "getFilterInfo fuel pageObjectResolver elementDescriptor args =
     (case elementDescriptor of
        None \<Rightarrow> Returned None
      | Some ed \<Rightarrow>
          if \<not> returnAll (e_selector ed) then Returned None
          else
            (case e_filter ed of
               None \<Rightarrow> Returned None
             | Some elementFilter \<Rightarrow>
                 (case f_apply elementFilter of
                    None \<Rightarrow> Returned None
                  | Some apply \<Rightarrow>
                      if apply = [] then Returned None
                      else
                        bindR (getFilterInfo_loop fuel pageObjectResolver (ElementDescriptor ed)
                                 (AStr apply))
                          (\<lambda>currentDescriptor.
                             case matcher elementFilter of
                               None \<Rightarrow> Raised TypeError
                             | Some mt \<Rightarrow>
                                 (case m_args mt of
                                    None \<Rightarrow> Raised TypeError
                                  | Some margs \<Rightarrow>
                                      Returned
                                        (Some
                                           \<lparr>fi_apply = descriptor_lastStepApply currentDescriptor,
                                            fi_matcherType = m_type mt,
                                            fi_args =
                                              filter (\<lambda>a. arg_name a \<in> set (map arg_name margs)
                                                           \<and> truthy (arg_value a)) args,
                                            fi_findFirst = findFirst elementFilter,
                                            fi_attribute = [],
                                            fi_additionalElements =
                                              descriptor_additionalElements
                                                currentDescriptor\<rparr>))))))"

text \<open>\<open>Array.prototype.filter\<close> with a callback that may throw.\<close>

fun filterR :: "('a \<Rightarrow> bool res) \<Rightarrow> 'a list \<Rightarrow> 'a list res" where
  "filterR f [] = Returned []"
| "filterR f (x # xs) =
     bindR (f x) (\<lambda>keep. bindR (filterR f xs) (\<lambda>rest. Returned (if keep then x # rest else rest)))"

text \<open>
  The loop over \<open>additionalElements\<close> in the callback of \<open>#filterElements\<close>:
  \<open>effectiveElement\<close> may become \<open>null\<close>, and a later access to it throws.
\<close>

fun descend :: "dom \<Rightarrow> refElem list \<Rightarrow> node option \<Rightarrow> node option res" where
  "descend d [] effectiveElement = Returned effectiveElement"
| "descend d (additionalElement # rest) effectiveElement =
     (case additionalElement of
        None \<Rightarrow> descend d rest effectiveElement
      | Some ed \<Rightarrow>
          (case css (e_selector ed) of
             None \<Rightarrow> descend d rest effectiveElement
           | Some c \<Rightarrow>
               if c = [] then descend d rest effectiveElement
               else
                 (case effectiveElement of
                    None \<Rightarrow> Raised TypeError
                  | Some n \<Rightarrow> bindR (querySelector d n c) (descend d rest))))"

definition to_jsval :: "string option \<Rightarrow> jsval" where
  "to_jsval v = (case v of None \<Rightarrow> JUndefined | Some s \<Rightarrow> JStr s)"

text \<open>The first \<open>switch\<close> of the callback: the value read from the effective element.\<close>

definition candidateValue ::
  "dom \<Rightarrow> filterInfo \<Rightarrow> node \<Rightarrow> node option \<Rightarrow> jsval res" where
  "candidateValue d fi element effectiveElement =
     (if fi_apply fi = AStr ''getText'' then
        (case effectiveElement of
           None \<Rightarrow> Raised TypeError
         | Some n \<Rightarrow> Returned (property d n ''textContent''))
      else if fi_apply fi = AStr ''getTitle'' then
        (case effectiveElement of
           None \<Rightarrow> Raised TypeError
         | Some n \<Rightarrow> Returned (property d n ''title''))
      else if fi_apply fi = AStr ''getAttribute'' then
        (if fi_attribute fi \<noteq> [] then
           (case effectiveElement of
              None \<Rightarrow> Raised TypeError
            | Some n \<Rightarrow>
                Returned
                  (if property d n (fi_attribute fi) = JUndefined \<or>
                      property d n (fi_attribute fi) = JNull
                   then (case getAttribute d element (fi_attribute fi) of
                           None \<Rightarrow> JNull
                         | Some s \<Rightarrow> JStr s)
                   else property d n (fi_attribute fi)))
         else Returned (JStr []))
      else Returned (JStr []))"

text \<open>The second \<open>switch\<close>: the matcher; a callback that returns nothing drops the element.\<close>

definition matches :: "string option \<Rightarrow> jsval \<Rightarrow> string option \<Rightarrow> bool res" where
  "matches matcherType candidate filterValue =
     (if matcherType = Some ''stringEquals'' then Returned (candidate = to_jsval filterValue)
      else if matcherType = Some ''stringContains'' then
        (case candidate of
           JStr s \<Rightarrow>
             Returned
               (includes_str s (case filterValue of None \<Rightarrow> ''undefined'' | Some v \<Rightarrow> v))
         | _ \<Rightarrow> Raised TypeError)
      else Returned False)"

definition filterCallback :: "dom \<Rightarrow> filterInfo \<Rightarrow> string option \<Rightarrow> node \<Rightarrow> bool res" where
  "filterCallback d fi filterValue element =
     bindR (descend d (fi_additionalElements fi) (Some element))
       (\<lambda>effectiveElement.
          bindR (candidateValue d fi element effectiveElement)
            (\<lambda>candidate. matches (fi_matcherType fi) candidate filterValue))"

definition filterableApplyMethods :: "applyv set" where
  "filterableApplyMethods = {AStr ''getText'', AStr ''getTitle'', AStr ''getAttribute''}"

text \<open>\<open>filterValue\<close>, computed once the argument list is known to be non-empty.\<close>

definition filterValue :: "filterInfo \<Rightarrow> string option" where
  "filterValue fi =
     (if fi_apply fi \<in> filterableApplyMethods then arg_value (hd (fi_args fi)) else Some [])"

definition filterElements :: "dom \<Rightarrow> node list \<Rightarrow> filterInfo option \<Rightarrow> node list res" where
  "filterElements d elements filterInfo =
     (case filterInfo of
        None \<Rightarrow> Returned []
      | Some fi \<Rightarrow>
          if elements = [] \<or> fi_args fi = [] then Returned []
          else
            bindR (filterR (filterCallback d fi (filterValue fi)) elements)
              (\<lambda>filteredElements.
                 Returned
                   (if fi_findFirst fi \<and> filteredElements \<noteq> []
                    then [hd filteredElements] else filteredElements)))"

text \<open>
  Argument arrays are mutable and shared between the walker and its caller: they live in
  a store, a list of arrays, and a reference is an index into it. \<open>slice\<close> makes a new
  array, \<open>splice(0, k)\<close> removes the first \<open>k\<close> entries of an array in place.
\<close>

type_synonym store = "arg list list"

definition slice_from :: "nat \<Rightarrow> nat \<Rightarrow> store \<Rightarrow> nat \<times> store" where
  "slice_from args k h = (length h, h @ [drop k (h ! args)])"

definition slice_to :: "nat \<Rightarrow> nat \<Rightarrow> store \<Rightarrow> nat \<times> store" where
  "slice_to args k h = (length h, h @ [take k (h ! args)])"

definition splice0 :: "nat \<Rightarrow> nat \<Rightarrow> store \<Rightarrow> store" where
  "splice0 args k h = h[args := drop k (h ! args)]"

text \<open>The loop of \<open>getElement\<close> over the matched markers.\<close>

fun substituteMarkers :: "string list \<Rightarrow> arg list \<Rightarrow> nat \<Rightarrow> string \<Rightarrow> string" where
  "substituteMarkers [] args argIndex selectorString = selectorString"
| "substituteMarkers (matchedSubstring # rest) args argIndex selectorString =
     substituteMarkers rest args (Suc argIndex)
       (if argIndex < length args then
          (case arg_value (args ! argIndex) of
             None \<Rightarrow> selectorString
           | Some v \<Rightarrow>
               if v = [] then selectorString
               else replace_first selectorString matchedSubstring v)
        else selectorString)"

definition getElement ::
  "dom \<Rightarrow> refElem \<Rightarrow> nat \<Rightarrow> filterInfo option \<Rightarrow> node option \<Rightarrow> store
     \<Rightarrow> (node option \<times> store) res" where
  "getElement d elementDescriptor args filterInfo parentNode h =
     (case parentNode of
        None \<Rightarrow> Returned (None, h)
      | Some pn \<Rightarrow>
          (case elementDescriptor of
             None \<Rightarrow> Raised TypeError
           | Some ed \<Rightarrow>
               (case css (e_selector ed) of
                  None \<Rightarrow> Returned (None, h)
                | Some selectorString \<Rightarrow>
                    if selectorString = [] then Returned (None, h)
                    else
                      let paramMarkerMatch = paramMarkers selectorString;
                          substitute = (paramMarkerMatch \<noteq> [] \<and> h ! args \<noteq> []);
                          selectorString1 =
                            (if substitute
                             then substituteMarkers paramMarkerMatch (h ! args) 0 selectorString
                             else selectorString);
                          h1 = (if substitute then splice0 args (length paramMarkerMatch) h
                                else h)
                      in bindR
                           (if CHR ''%'' \<notin> set selectorString1 then
                              (case (if e_isInShadowRoot ed then shadowRoot d pn else None) of
                                 Some sr \<Rightarrow> qsa d sr selectorString1
                               | None \<Rightarrow> qsa d pn selectorString1)
                            else Returned [])
                           (\<lambda>elements.
                              bindR
                                (if returnAll (e_selector ed) \<and> e_filter ed \<noteq> None then
                                   bindR (filterElements d elements filterInfo)
                                     (\<lambda>filteredElements.
                                        Returned
                                          (if filteredElements \<noteq> [] then filteredElements
                                           else elements))
                                 else Returned elements)
                                (\<lambda>elements1.
                                   Returned
                                     (case elements1 of [] \<Rightarrow> None | x # xs \<Rightarrow> Some x,
                                      h1))))))"

text \<open>
  The \<open>while\<close> loop of \<open>walkElements\<close> that follows the parent names; the first
  argument bounds the number of evaluations of its condition.
\<close>

fun elementPath_loop ::
  "nat \<Rightarrow> (string \<times> elementDesc) list \<Rightarrow> elementDesc \<Rightarrow> elementDesc list
     \<Rightarrow> elementDesc list res" where
  "elementPath_loop 0 elementCollection parentDescriptor elementPath = Diverged"
| "elementPath_loop (Suc n) elementCollection parentDescriptor elementPath =
     (if truthy (e_parent parentDescriptor) then
        (case map_of elementCollection (the (e_parent parentDescriptor)) of
           None \<Rightarrow> Raised TypeError
         | Some pd \<Rightarrow> elementPath_loop n elementCollection pd (pd # elementPath))
      else Returned elementPath)"

text \<open>
  The two \<open>forEach\<close> callbacks of \<open>walkElements\<close>, on the current element, the array
  the variable \<open>args\<close> refers to, and the store.
\<close>

definition walkMethodElement ::
  "dom \<Rightarrow> nat \<Rightarrow> (string \<Rightarrow> parsedPageObject option) \<Rightarrow> refElem
     \<Rightarrow> node option \<times> nat \<times> store \<Rightarrow> (node option \<times> nat \<times> store) res" where
  "walkMethodElement d fuel pageObjectResolver referencedElement s =
     (case s of (currentElement, args, h) \<Rightarrow>
        (case (case referencedElement of
                 None \<Rightarrow> (args, args, h)
               | Some ed \<Rightarrow>
                   (case slice_to args (length (e_effectiveArgs ed)) h of
                      (intermediateArgs, h1) \<Rightarrow>
                        (case slice_from args (length (e_effectiveArgs ed)) h1 of
                           (args1, h2) \<Rightarrow> (intermediateArgs, args1, h2)))) of
           (intermediateArgs, args1, h2) \<Rightarrow>
             bindR (getFilterInfo fuel pageObjectResolver referencedElement (h2 ! intermediateArgs))
               (\<lambda>intermediateFilterInfo.
                  bindR (getElement d referencedElement intermediateArgs intermediateFilterInfo
                           currentElement h2)
                    (\<lambda>(element, h3). Returned (element, args1, h3)))))"

definition walkPathSegment ::
  "dom \<Rightarrow> nat \<Rightarrow> (string \<Rightarrow> parsedPageObject option) \<Rightarrow> elementDesc
     \<Rightarrow> node option \<times> nat \<times> store \<Rightarrow> (node option \<times> nat \<times> store) res" where
  "walkPathSegment d fuel pageObjectResolver pathSegment s =
     (case s of (currentElement, args, h) \<Rightarrow>
        (case sel_args (e_selector pathSegment) of
           None \<Rightarrow> Returned (currentElement, args, h)
         | Some sa \<Rightarrow>
             (case slice_to args (length sa) h of
                (segmentArgs, h1) \<Rightarrow>
                  (case slice_from args (length sa) h1 of
                     (args1, h2) \<Rightarrow>
                       bindR (getFilterInfo fuel pageObjectResolver (Some pathSegment)
                                (h2 ! args1))
                         (\<lambda>pathSegmentFilterInfo.
                            bindR (getElement d (Some pathSegment) segmentArgs
                                     pathSegmentFilterInfo currentElement h2)
                              (\<lambda>(element, h3). Returned (element, args1, h3)))))))"

text \<open>
  The path of ancestors that \<open>walkElements\<close> builds for an element, root first; an
  element without a parent has none.
\<close>

definition elementPath ::
  "nat \<Rightarrow> (string \<times> elementDesc) list \<Rightarrow> elementDesc \<Rightarrow> elementDesc list res" where
  "elementPath fuel elementCollection memberDescriptor =
     (if truthy (e_parent memberDescriptor) then
        (case map_of elementCollection (the (e_parent memberDescriptor)) of
           None \<Rightarrow> Raised TypeError
         | Some parentDescriptor \<Rightarrow>
             elementPath_loop fuel elementCollection parentDescriptor [parentDescriptor])
      else Returned [])"

definition walkElements ::
  "dom \<Rightarrow> nat \<Rightarrow> (string \<Rightarrow> parsedPageObject option) \<Rightarrow> node option \<Rightarrow> member \<Rightarrow> nat
     \<Rightarrow> (string \<times> elementDesc) list \<Rightarrow> store \<Rightarrow> (node option \<times> store) res" where
  "walkElements d fuel pageObjectResolver parentElement memberDescriptor args elementCollection h =
     (case memberDescriptor of
        MethodMember m \<Rightarrow>
          bindR (forEachR (walkMethodElement d fuel pageObjectResolver) (d_elements m)
                   (parentElement, args, h))
            (\<lambda>(currentElement, args1, h1). Returned (currentElement, h1))
      | ElementMember e \<Rightarrow>
          bindR (elementPath fuel elementCollection e)
            (\<lambda>elementPath.
               bindR (forEachR (walkPathSegment d fuel pageObjectResolver) elementPath
                        (parentElement, args, h))
                 (\<lambda>(currentElement, args1, h1).
                    bindR (getFilterInfo fuel pageObjectResolver (Some e) (h1 ! args1))
                      (\<lambda>filterInfo.
                         getElement d (Some e) args1 filterInfo currentElement h1))))"

text \<open>
  The store after \<open>getElement\<close> has worked on the array \<open>args\<close> for a descriptor and a
  parent node: when the \<open>css\<close> of the selector has markers and the array is not
  empty, the array has lost as many leading entries as there are markers.
\<close>

definition spliced :: "elementDesc \<Rightarrow> nat \<Rightarrow> store \<Rightarrow> store" where
  "spliced ed args h =
     (case css (e_selector ed) of
        None \<Rightarrow> h
      | Some c \<Rightarrow>
          if paramMarkers c \<noteq> [] \<and> h ! args \<noteq> []
          then splice0 args (length (paramMarkers c)) h else h)"

section \<open>Elements: the arguments along the ownership tree\<close>

text \<open>
  What one element definition contributes to the accumulated argument list: the
  arguments of its own selector when the selector has a \<open>css\<close>, then the arguments of
  the matcher of its filter when the selector returns all.
\<close>

definition own_selector_args :: "elementDef \<Rightarrow> arg list" where
  "own_selector_args e =
     (case el_selector e of
        None \<Rightarrow> []
      | Some s \<Rightarrow> if truthy (css s) then (case sel_args s of None \<Rightarrow> [] | Some a \<Rightarrow> a) else [])"

definition own_filter_args :: "elementDef \<Rightarrow> arg list" where
  "own_filter_args e =
     (case el_selector e of
        None \<Rightarrow> []
      | Some s \<Rightarrow>
          if truthy (css s) \<and> returnAll s then
            (case el_filter e of
               None \<Rightarrow> []
             | Some f \<Rightarrow>
                 (case matcher f of
                    None \<Rightarrow> []
                  | Some m \<Rightarrow> (case m_args m of None \<Rightarrow> [] | Some ma \<Rightarrow> ma)))
          else [])"

definition own_args :: "elementDef \<Rightarrow> arg list" where
  "own_args e = own_selector_args e @ own_filter_args e"

text \<open>
  The root-first paths of the ownership tree: an element, or an element followed by a
  path of its children (\<open>elements\<close> before \<open>shadow.elements\<close>).
\<close>

fun element_paths :: "elementDef \<Rightarrow> elementDef list list" where
  "element_paths (ElementDef n t s f p d els sh) =
     [ElementDef n t s f p d els sh] #
     map ((#) (ElementDef n t s f p d els sh)) (concat (map element_paths (els @ sh)))"

definition paths :: "elementDef list \<Rightarrow> elementDef list list" where
  "paths forest = concat (map element_paths forest)"

definition path_parent :: "string option \<Rightarrow> elementDef list \<Rightarrow> string option" where
  "path_parent parentName p = (case rev p of e # a # _ \<Rightarrow> Some (el_name a) | _ \<Rightarrow> parentName)"

definition from_tree :: "elementDef list \<Rightarrow> string option \<Rightarrow> arg list \<Rightarrow> string \<Rightarrow> elementDesc \<Rightarrow> bool" where
  "from_tree forest pn pa n d \<longleftrightarrow>
     (\<exists>p \<in> set (paths forest). el_name (last p) = n \<and>
        e_effectiveArgs d = pa @ concat (map own_args p) \<and> e_parent d = path_parent pn p)"



text \<open>
  The argument list in the words of the specification: the selector arguments of every
  ancestor, then the element's own selector arguments and filter parameters.
\<close>

definition claimed_effectiveArgs :: "elementDef list \<Rightarrow> arg list" where
  "claimed_effectiveArgs p =
     concat (map own_selector_args (butlast p)) @ own_selector_args (last p) @
     own_filter_args (last p)"

definition ex_label :: arg where
  "ex_label = Arg (Some ''label'') (Some ''string'') None None"

definition ex_cell :: elementDef where
  "ex_cell =
     ElementDef ''cell'' None (Some \<lparr>css = Some ''.cell'', sel_args = None, returnAll = False\<rparr>)
       None True None [] []"

definition ex_rows :: elementDef where
  "ex_rows =
     ElementDef ''rows'' None (Some \<lparr>css = Some ''.row'', sel_args = None, returnAll = True\<rparr>)
       (Some \<lparr>f_apply = Some ''getText'',
              matcher = Some \<lparr>m_type = Some ''stringEquals'', m_args = Some [ex_label]\<rparr>,
              findFirst = True\<rparr>)
       True None [ex_cell] []"


definition ex_cell_desc :: elementDesc where
  "ex_cell_desc = processElementObject ex_cell (Some ''rows'') [ex_label] False []"

section \<open>Example definition sets\<close>

definition new_db :: "(string \<times> pageObject) list \<Rightarrow> db" where
  "new_db all =
     \<lparr>allPageObjects = all, objs = [], parsedPageObjectCache = [], console = [],
      rootPageObjectUris = []\<rparr>"

text \<open>Reading a method descriptor out of the result of a resolution, and the state after it.\<close>

definition parsedMethod :: "(nat \<times> db) res \<Rightarrow> string \<Rightarrow> methodDesc option" where
  "parsedMethod r name =
     (case r of Returned (a, st) \<Rightarrow> map_of (p_methods (objs st ! a)) name | _ \<Rightarrow> None)"

definition db_after :: "('a \<times> db) res \<Rightarrow> db" where
  "db_after r = (case r of Returned (a, st) \<Rightarrow> st | _ \<Rightarrow> new_db [])"

definition returned_ref :: "(nat \<times> db) res \<Rightarrow> nat option" where
  "returned_ref r = (case r of Returned (a, st) \<Rightarrow> Some a | _ \<Rightarrow> None)"

text \<open>\<open>getPageObject(uri).methods[name]\<close> on the cache.\<close>

definition cachedMethod :: "db \<Rightarrow> string \<Rightarrow> string \<Rightarrow> methodDesc option" where
  "cachedMethod st uri name =
     (case map_of (parsedPageObjectCache st) uri of
        None \<Rightarrow> None
      | Some a \<Rightarrow> map_of (p_methods (objs st ! a)) name)"

text \<open>Two methods that apply each other.\<close>

definition ex_cycle :: pageObject where
  "ex_cycle =
     \<lparr>po_selector = None, po_root = False, po_description = None, po_elements = [],
      po_shadow = [],
      po_methods =
        [\<lparr>md_name = ''A'', md_args = None, md_returnType = None, md_return = None,
          md_compose = [Step None (Some ''B'') None False None None], md_description = None\<rparr>,
         \<lparr>md_name = ''B'', md_args = None, md_returnType = None, md_return = None,
          md_compose = [Step None (Some ''A'') None False None None], md_description = None\<rparr>],
      po_artifact = [], po_source = []\<rparr>"

definition ex_cycle_db :: db where
  "ex_cycle_db = new_db [(''utam/cycle'', ex_cycle)]"

text \<open>
  The state in which \<open>#processMethods\<close> enters the first method: the parsed page object
  exists, its method map is empty.
\<close>

definition ex_cycle_entered :: db where
  "ex_cycle_entered =
     ex_cycle_db\<lparr>objs := [\<lparr>p_uri = ''utam/cycle'', p_source = Some [], p_elements = [],
                             p_methods = [], p_author = None, p_description = None\<rparr>]\<rparr>"

text \<open>
  A page object with an element of its own type and a method that chains into it.
\<close>

definition ex_node :: pageObject where
  "ex_node =
     \<lparr>po_selector = None, po_root = False, po_description = None,
      po_elements =
        [ElementDef ''child'' (Some (TStr ''utam/node''))
           (Some \<lparr>css = Some ''.child'', sel_args = None, returnAll = False\<rparr>)
           None True None [] []],
      po_shadow = [],
      po_methods =
        [\<lparr>md_name = ''grandchild'', md_args = None, md_returnType = None, md_return = None,
          md_compose = [Step (Some ''child'') None None False None None,
                        Step (Some ''child'') None None True None None],
          md_description = None\<rparr>],
      po_artifact = [], po_source = []\<rparr>"

text \<open>
  The page object of the example of the specification: a root selector, a clickable
  element and a method that clicks it.
\<close>

definition ex_spec :: pageObject where
  "ex_spec =
     \<lparr>po_selector = Some \<lparr>css = Some ''.a-root'', sel_args = None, returnAll = False\<rparr>,
      po_root = True, po_description = None,
      po_elements =
        [ElementDef ''btn'' (Some (TArr [''clickable'']))
           (Some \<lparr>css = Some ''.btn'', sel_args = None, returnAll = False\<rparr>)
           None True None [] []],
      po_shadow = [],
      po_methods =
        [\<lparr>md_name = ''clickIt'', md_args = None, md_returnType = None, md_return = None,
          md_compose = [Step (Some ''btn'') (Some ''click'') None False None None],
          md_description = None\<rparr>],
      po_artifact = [], po_source = []\<rparr>"

text \<open>
  A page object with a method that declares an argument and refers to an element whose
  selector has an argument.
\<close>

definition ex_d :: arg where "ex_d = Arg (Some ''d'') (Some ''string'') None None"
definition ex_x :: arg where "ex_x = Arg (Some ''x'') (Some ''string'') None None"

definition ex_B :: pageObject where
  "ex_B =
     \<lparr>po_selector = None, po_root = False, po_description = None,
      po_elements =
        [ElementDef ''e'' None
           (Some \<lparr>css = Some ''.row-%s'', sel_args = Some [ex_x], returnAll = False\<rparr>)
           None True None [] []],
      po_shadow = [],
      po_methods =
        [\<lparr>md_name = ''m'', md_args = Some [ex_d], md_returnType = None, md_return = None,
          md_compose = [Step (Some ''e'') None None False None None], md_description = None\<rparr>],
      po_artifact = [], po_source = []\<rparr>"

text \<open>A page object with a method that chains into \<open>utam/B\<close>.\<close>

definition ex_A :: pageObject where
  "ex_A =
     \<lparr>po_selector = None, po_root = False, po_description = None,
      po_elements =
        [ElementDef ''b'' (Some (TStr ''utam/B''))
           (Some \<lparr>css = Some ''.b'', sel_args = None, returnAll = False\<rparr>)
           None True None [] []],
      po_shadow = [],
      po_methods =
        [\<lparr>md_name = ''go'', md_args = None, md_returnType = None, md_return = None,
          md_compose = [Step (Some ''b'') None None False None None,
                        Step (Some ''e'') None None True None None],
          md_description = None\<rparr>],
      po_artifact = [], po_source = []\<rparr>"

text \<open>
  A method whose first step yields the URI \<open>utam/missing\<close>, which the definition set
  does not have, whose second step chains, and whose third step is an ordinary step.
\<close>

definition ex_missing :: pageObject where
  "ex_missing =
     \<lparr>po_selector = None, po_root = False, po_description = None,
      po_elements =
        [ElementDef ''link'' (Some (TStr ''utam/missing''))
           (Some \<lparr>css = Some ''.link'', sel_args = None, returnAll = False\<rparr>)
           None True None [] [],
         ElementDef ''other'' None
           (Some \<lparr>css = Some ''.other'', sel_args = None, returnAll = False\<rparr>)
           None True None [] []],
      po_shadow = [],
      po_methods =
        [\<lparr>md_name = ''m'', md_args = None, md_returnType = None, md_return = None,
          md_compose = [Step (Some ''link'') None None False None None,
                        Step (Some ''title'') (Some ''getText'') None True None None,
                        Step (Some ''other'') (Some ''isVisible'') None False None None],
          md_description = None\<rparr>],
      po_artifact = [], po_source = []\<rparr>"

text \<open>
  Two page objects that both have an element \<open>item\<close>. The methods of \<open>utam/chain\<close>:
  \<open>viaChain\<close> chains after a step that yields the URI \<open>utam/target\<close>; \<open>first\<close> chains
  in its first step; \<open>afterBasic\<close> chains after a step that yields the type
  \<open>string\<close>, and \<open>afterBasicNoChain\<close> is the same method without the chain flag.
\<close>

definition ex_target :: pageObject where
  "ex_target =
     \<lparr>po_selector = None, po_root = False, po_description = None,
      po_elements =
        [ElementDef ''item'' (Some (TStr ''number''))
           (Some \<lparr>css = Some ''.target-item'', sel_args = None, returnAll = False\<rparr>)
           None True None [] []],
      po_shadow = [], po_methods = [], po_artifact = [], po_source = []\<rparr>"

definition ex_chain :: pageObject where
  "ex_chain =
     \<lparr>po_selector = None, po_root = False, po_description = None,
      po_elements =
        [ElementDef ''item'' (Some (TStr ''string''))
           (Some \<lparr>css = Some ''.own-item'', sel_args = None, returnAll = False\<rparr>)
           None True None [] [],
         ElementDef ''sub'' (Some (TStr ''utam/target''))
           (Some \<lparr>css = Some ''.sub'', sel_args = None, returnAll = False\<rparr>)
           None True None [] []],
      po_shadow = [], 
      po_methods =
        [\<lparr>md_name = ''viaChain'', md_args = None, md_returnType = None, md_return = None,
          md_compose = [Step (Some ''sub'') None None False None None,
                        Step (Some ''item'') None None True None None],
          md_description = None\<rparr>,
         \<lparr>md_name = ''first'', md_args = None, md_returnType = None, md_return = None,
          md_compose = [Step (Some ''item'') None None True None None],
          md_description = None\<rparr>,
         \<lparr>md_name = ''afterBasic'', md_args = None, md_returnType = None, md_return = None,
          md_compose = [Step (Some ''item'') None None False None None,
                        Step (Some ''sub'') None None True None None],
          md_description = None\<rparr>,
         \<lparr>md_name = ''afterBasicNoChain'', md_args = None, md_returnType = None, md_return = None,
          md_compose = [Step (Some ''item'') None None False None None,
                        Step (Some ''sub'') None None False None None],
          md_description = None\<rparr>],
      po_artifact = [], po_source = []\<rparr>"

definition ex_chain_db :: db where
  "ex_chain_db = new_db [(''utam/chain'', ex_chain), (''utam/target'', ex_target)]"







text \<open>
  A page object \<open>utam/form\<close> with a method \<open>submit\<close>, and a page object \<open>utam/caller\<close>
  whose method \<open>send\<close> applies \<open>submit\<close> in a chain step after a step of type
  \<open>utam/form\<close>, and whose method \<open>viaConstructor\<close> chains after a step of the type
  \<open>constructor\<close>, the name of a property every object inherits. The state in which
  the methods of \<open>utam/caller\<close> are entered, the state after the chain step has resolved
  \<open>utam/form\<close> in it, the loop variables after a step of type \<open>utam/form\<close>, the chain
  step that applies \<open>submit\<close>, and the descriptor of \<open>submit\<close>.
\<close>

definition ex_form :: pageObject where
  "ex_form =
     \<lparr>po_selector = None, po_root = False, po_description = None,
      po_elements =
        [ElementDef ''button'' None
           (Some \<lparr>css = Some ''.button'', sel_args = None, returnAll = False\<rparr>)
           None True None [] []],
      po_shadow = [],
      po_methods =
        [\<lparr>md_name = ''submit'', md_args = None, md_returnType = None, md_return = None,
          md_compose = [Step (Some ''button'') (Some ''isVisible'') None False None None],
          md_description = None\<rparr>],
      po_artifact = [], po_source = []\<rparr>"

definition ex_caller :: pageObject where
  "ex_caller =
     \<lparr>po_selector = None, po_root = False, po_description = None,
      po_elements =
        [ElementDef ''form'' (Some (TStr ''utam/form''))
           (Some \<lparr>css = Some ''.form'', sel_args = None, returnAll = False\<rparr>)
           None True None [] [],
         ElementDef ''ctor'' (Some (TStr ''constructor''))
           (Some \<lparr>css = Some ''.ctor'', sel_args = None, returnAll = False\<rparr>)
           None True None [] []],
      po_shadow = [],
      po_methods =
        [\<lparr>md_name = ''send'', md_args = None, md_returnType = None, md_return = None,
          md_compose = [Step (Some ''form'') None None False None None,
                        Step None (Some ''submit'') None True None None],
          md_description = None\<rparr>,
         \<lparr>md_name = ''viaConstructor'', md_args = None, md_returnType = None, md_return = None,
          md_compose = [Step (Some ''ctor'') None None False None None,
                        Step (Some ''form'') None None True None None],
          md_description = None\<rparr>],
      po_artifact = [], po_source = []\<rparr>"

definition ex_caller_db :: db where
  "ex_caller_db = new_db [(''utam/caller'', ex_caller), (''utam/form'', ex_form)]"









text \<open>
  A root page object and a page object that is no root, and what a caller sees after
  \<open>reloadDatabase\<close>: the count, \<open>rootPageObjectUris\<close> and \<open>getAllPageObjectUris()\<close>.
\<close>

definition ex_root_po :: pageObject where
  "ex_root_po =
     \<lparr>po_selector = Some \<lparr>css = Some ''.app'', sel_args = None, returnAll = False\<rparr>,
      po_root = True, po_description = None, po_elements = [], po_shadow = [],
      po_methods = [], po_artifact = [], po_source = []\<rparr>"

definition ex_plain_po :: pageObject where
  "ex_plain_po =
     \<lparr>po_selector = None, po_root = False, po_description = None, po_elements = [],
      po_shadow = [], po_methods = [], po_artifact = [], po_source = []\<rparr>"

definition reloaded :: "(nat \<times> db) res \<Rightarrow> (nat \<times> string list \<times> string list) option" where
  "reloaded r =
     (case r of
        Returned (n, st) \<Rightarrow> Some (n, rootPageObjectUris st, map fst (parsedPageObjectCache st))
      | _ \<Rightarrow> None)"

section \<open>Example documents\<close>

text \<open>A list with the items \<open>Apple\<close> (node 1) and \<open>Banana\<close> (node 2) under node 0.\<close>

definition ex_list_dom :: dom where
  "ex_list_dom =
     \<lparr>querySelectorAll = (\<lambda>n sel. Inr (if n = 0 \<and> sel = ''li'' then [1, 2] else [])),
      shadowRoot = (\<lambda>n. None),
      property = (\<lambda>n p. if p = ''textContent'' then
                            (if n = 1 then JStr ''Apple'' else if n = 2 then JStr ''Banana''
                             else JStr [])
                          else JUndefined),
      getAttribute = (\<lambda>n a. None)\<rparr>"

text \<open>
  A list element with a filter on \<open>getText\<close>, its argument without and with a value,
  the filter information the walker computes for the argument without a value, and a
  filter information that asks for the first item whose text contains \<open>a\<close>.
\<close>

definition ex_label_unbound :: arg where
  "ex_label_unbound = Arg (Some ''label'') (Some ''string'') None None"


definition ex_fruit :: elementDesc where
  "ex_fruit =
     \<lparr>e_name = ''fruit'', e_displayName = ''getFruit'', e_description = None,
      e_effectiveArgs = [ex_label_unbound], e_type = None, e_category = BASIC,
      e_selector = \<lparr>css = Some ''li'', sel_args = None, returnAll = True\<rparr>,
      e_returnsList = True,
      e_filter = Some \<lparr>f_apply = Some ''getText'',
                        matcher = Some \<lparr>m_type = Some ''stringEquals'',
                                        m_args = Some [ex_label_unbound]\<rparr>,
                        findFirst = True\<rparr>,
      e_parent = None, e_public = True, e_isInShadowRoot = False\<rparr>"

definition ex_filterInfo_unbound :: filterInfo where
  "ex_filterInfo_unbound =
     \<lparr>fi_apply = AUndef, fi_matcherType = Some ''stringEquals'', fi_args = [],
      fi_findFirst = True, fi_attribute = [], fi_additionalElements = []\<rparr>"


text \<open>
  A page object \<open>utam/item\<close> whose method \<open>getLabel\<close> reads the text of its element
  \<open>label\<close>, its parsed form, a resolver that knows this page object only, and a list
  element \<open>fruits\<close> of that type with a filter on \<open>getLabel\<close>. In the document the
  list items are the nodes 1 and 2 and their labels the nodes 3 and 4, with the texts
  \<open>Apple\<close> and \<open>Banana\<close>. The filters and the matcher of the two list elements, the
  node of the label of an item, and the element \<open>fruit\<close> with a filter whose matcher
  takes no arguments.
\<close>

definition ex_entry :: pageObject where
  "ex_entry =
     \<lparr>po_selector = None, po_root = False, po_description = None,
      po_elements =
        [ElementDef ''label'' None
           (Some \<lparr>css = Some ''.label'', sel_args = None, returnAll = False\<rparr>)
           None True None [] []],
      po_shadow = [],
      po_methods =
        [\<lparr>md_name = ''getLabel'', md_args = None, md_returnType = None, md_return = None,
          md_compose = [Step (Some ''label'') (Some ''getText'') None False None None],
          md_description = None\<rparr>],
      po_artifact = [], po_source = []\<rparr>"

definition ex_entry_parsed :: parsedPageObject where
  "ex_entry_parsed =
     objs (db_after (parsePageObject 3 ''utam/item'' (new_db [(''utam/item'', ex_entry)]))) ! 0"

definition ex_resolver :: "string \<Rightarrow> parsedPageObject option" where
  "ex_resolver uri = (if uri = ''utam/item'' then Some ex_entry_parsed else None)"








definition ex_visible :: elementDesc where
  "ex_visible =
     ex_fruit\<lparr>e_filter := Some \<lparr>f_apply = Some ''isVisible'',
                                   matcher = Some \<lparr>m_type = Some ''isTrue'', m_args = None\<rparr>,
                                   findFirst = True\<rparr>\<rparr>"

text \<open>
  A document with an item (node 1) outside of a list (node 2) and an item (node 3)
  inside of it, and the element \<open>item\<close> declared under the element \<open>list\<close>, neither
  selector with arguments.
\<close>

definition ex_nested_dom :: dom where
  "ex_nested_dom =
     \<lparr>querySelectorAll =
        (\<lambda>n sel. Inr (if n = 0 \<and> sel = ''.item'' then [1, 3]
                       else if n = 0 \<and> sel = ''.list'' then [2]
                       else if n = 2 \<and> sel = ''.item'' then [3]
                       else [])),
      shadowRoot = (\<lambda>n. None),
      property = (\<lambda>n p. JUndefined),
      getAttribute = (\<lambda>n a. None)\<rparr>"

definition ex_list_tree :: "elementDef list" where
  "ex_list_tree =
     [ElementDef ''list'' None
        (Some \<lparr>css = Some ''.list'', sel_args = None, returnAll = False\<rparr>) None True None
        [ElementDef ''item'' None
           (Some \<lparr>css = Some ''.item'', sel_args = None, returnAll = False\<rparr>) None True None
           [] []]
        []]"

definition ex_list_elements :: "(string \<times> elementDesc) list" where
  "ex_list_elements = processElements ex_list_tree [] None [] [] []"

definition ex_item :: elementDesc where
  "ex_item = processElementObject (hd (el_elements (hd ex_list_tree))) (Some ''list'') [] False []"

definition ex_list :: elementDesc where
  "ex_list = processElementObject (hd ex_list_tree) None [] False []"

text \<open>
  A document for selectors with markers; the element \<open>e\<close> of \<open>utam/B\<close> with the
  selector \<open>.row-%s\<close> and a method that refers to it; a cell under a table, both
  selectors with a marker and an argument; a row with a marker under a list without
  arguments.
\<close>

definition ex_rows_dom :: dom where
  "ex_rows_dom =
     \<lparr>querySelectorAll =
        (\<lambda>n sel. Inr (if n = 0 \<and> sel = ''.row-5'' then [5]
                       else if n = 0 \<and> sel = ''.table-5'' then [6]
                       else if n = 6 \<and> sel = ''.cell-7'' then [7]
                       else [])),
      shadowRoot = (\<lambda>n. None),
      property = (\<lambda>n p. JUndefined),
      getAttribute = (\<lambda>n a. None)\<rparr>"

definition ex_five :: arg where "ex_five = Arg (Some ''x'') (Some ''string'') (Some ''5'') None"
definition ex_seven :: arg where "ex_seven = Arg (Some ''y'') (Some ''string'') (Some ''7'') None"

definition ex_row :: elementDesc where
  "ex_row = processElementObject (hd (po_elements ex_B)) None [] False []"

definition ex_pick :: methodDesc where
  "ex_pick =
     \<lparr>d_displayName = ''pick'', d_name = ''pick'', d_description = None,
      d_effectiveArgs = [ex_x], d_category = METHOD, d_type = TStr BASIC, d_public = True,
      d_lastStepApply = AStr [], d_elements = [Some ex_row]\<rparr>"

definition ex_table_tree :: "elementDef list" where
  "ex_table_tree =
     [ElementDef ''table'' None
        (Some \<lparr>css = Some ''.table-%s'', sel_args = Some [ex_x], returnAll = False\<rparr>) None True
        None
        [ElementDef ''cell'' None
           (Some \<lparr>css = Some ''.cell-%s'',
                  sel_args = Some [Arg (Some ''y'') (Some ''string'') None None],
                  returnAll = False\<rparr>) None True None
           [] []]
        []]"

definition ex_table_elements :: "(string \<times> elementDesc) list" where
  "ex_table_elements = processElements ex_table_tree [] None [] [] []"

definition ex_table :: elementDesc where
  "ex_table = processElementObject (hd ex_table_tree) None [] False []"

definition ex_table_cell :: elementDesc where
  "ex_table_cell = processElementObject (hd (el_elements (hd ex_table_tree))) (Some ''table'')
               [ex_x] False []"

definition ex_listrow_tree :: "elementDef list" where
  "ex_listrow_tree =
     [ElementDef ''list'' None
        (Some \<lparr>css = Some ''.list'', sel_args = None, returnAll = False\<rparr>) None True None
        [ElementDef ''row'' None
           (Some \<lparr>css = Some ''.row-%s'', sel_args = Some [ex_x], returnAll = False\<rparr>) None
           True None [] []]
        []]"

definition ex_listrow_elements :: "(string \<times> elementDesc) list" where
  "ex_listrow_elements = processElements ex_listrow_tree [] None [] [] []"

definition ex_listrow_list :: elementDesc where
  "ex_listrow_list = processElementObject (hd ex_listrow_tree) None [] False []"

definition ex_listrow_row :: elementDesc where
  "ex_listrow_row =
     processElementObject (hd (el_elements (hd ex_listrow_tree))) (Some ''list'') [] False []"

lemmas DataTypes_defs = VOID_def STRING_def NUMBER_def BOOLEAN_def CONTAINER_def DOCUMENT_def
  NAVIGATION_def BASIC_def METHOD_def PAGE_OBJECT_def INTRINSIC_def ROOT_def

lemmas resolver_defs = processMethod_body_def the_method_def composeStep_def composeStep_rest_def
  processStep_def processStep_element_def processStep_apply_def bindR_def truthy_def Let_def
  prop_read_def prototype_keys_def

section \<open>Properties of the element resolver\<close>

lemma processElementObject_args:
  "e_effectiveArgs (processElementObject e pn pa sh all) = pa @ own_args e"
  by (simp add: processElementObject_def own_args_def own_selector_args_def own_filter_args_def
        empty_selector_def Let_def split: option.splits)

lemma processElementObject_parent:
  "e_parent (processElementObject e pn pa sh all) = pn"
  by (simp add: processElementObject_def Let_def)

lemma paths_Cons: "paths (e # es) = element_paths e @ paths es"
  by (simp add: paths_def)

lemma paths_append: "paths (xs @ ys) = paths xs @ paths ys"
  by (simp add: paths_def)

lemma element_paths_unfold:
  "element_paths e = [e] # map ((#) e) (paths (el_elements e @ el_shadow e))"
  by (cases e) (simp add: paths_def)

lemma element_paths_nonempty: "p \<in> set (element_paths e) \<Longrightarrow> p \<noteq> []"
  by (cases e) auto

lemma paths_nonempty: "p \<in> set (paths forest) \<Longrightarrow> p \<noteq> []"
  by (auto simp: paths_def dest: element_paths_nonempty)

lemma path_parent_Cons:
  "p \<noteq> [] \<Longrightarrow> path_parent pn (e # p) = path_parent (Some (el_name e)) p"
proof -
  assume "p \<noteq> []"
  then obtain q x where p: "p = q @ [x]" by (cases p rule: rev_cases) auto
  show ?thesis
  proof (cases q rule: rev_cases)
    case Nil
    then show ?thesis by (simp add: p path_parent_def)
  next
    case (snoc r y)
    then show ?thesis by (simp add: p path_parent_def)
  qed
qed

lemma from_tree_append:
  "from_tree xs pn pa n d \<or> from_tree ys pn pa n d \<Longrightarrow> from_tree (xs @ ys) pn pa n d"
  by (auto simp: from_tree_def paths_append)

lemma from_tree_rest:
  "from_tree rest pn pa n d \<Longrightarrow> from_tree (e # rest) pn pa n d"
  by (auto simp: from_tree_def paths_Cons)

lemma from_tree_self:
  "e_effectiveArgs d = pa @ own_args e \<Longrightarrow> e_parent d = pn \<Longrightarrow>
     from_tree (e # rest) pn pa (el_name e) d"
  unfolding from_tree_def paths_Cons
  by (rule bexI [where x = "[e]"]) (simp_all add: path_parent_def element_paths_unfold [of e])

lemma from_tree_child:
  assumes "from_tree (el_elements e @ el_shadow e) (Some (el_name e)) (pa @ own_args e) n d"
  shows "from_tree (e # rest) pn pa n d"
proof -
  from assms obtain p where p: "p \<in> set (paths (el_elements e @ el_shadow e))"
    "el_name (last p) = n" "e_effectiveArgs d = (pa @ own_args e) @ concat (map own_args p)"
    "e_parent d = path_parent (Some (el_name e)) p"
    unfolding from_tree_def by blast
  have ne: "p \<noteq> []" using p(1) by (rule paths_nonempty)
  have mem: "e # p \<in> set (paths (e # rest))"
    using p(1) by (simp add: paths_Cons element_paths_unfold [of e])
  have "el_name (last (e # p)) = n" using ne p(2) by simp
  moreover have "e_effectiveArgs d = pa @ concat (map own_args (e # p))" using p(3) by simp
  moreover have "e_parent d = path_parent pn (e # p)" using p(4) ne by (simp add: path_parent_Cons)
  ultimately have "el_name (last (e # p)) = n \<and>
      e_effectiveArgs d = pa @ concat (map own_args (e # p)) \<and>
      e_parent d = path_parent pn (e # p)" by simp
  with mem show ?thesis unfolding from_tree_def by (rule bexI [rotated])
qed



lemma processElements_sound:
  "map_of (processElements els sh pn pa all acc) n = Some d \<Longrightarrow>
     map_of acc n = Some d \<or> from_tree (els @ sh) pn pa n d"
  "map_of (processElements_forEach b xs pn pa all acc) n = Some d \<Longrightarrow>
     map_of acc n = Some d \<or> from_tree xs pn pa n d"
proof (induction els sh pn pa all acc and b xs pn pa all acc arbitrary: d and d
       rule: processElements_processElements_forEach.induct)
  case (1 els shadow parentName parentArgs allPageObjects parsedElements)
  from "1.prems" have
    "map_of (processElements_forEach False els parentName parentArgs allPageObjects parsedElements) n
       = Some d \<or> from_tree shadow parentName parentArgs n d"
    using "1.IH"(2) by simp
  then show ?case
    using "1.IH"(1) from_tree_append by blast
next
  case (2 isInShadowRoot parentName parentArgs allPageObjects parsedElements)
  then show ?case by simp
next
  case (3 isInShadowRoot element rest parentName parentArgs allPageObjects parsedElements)
  define processed where
    "processed = processElementObject element parentName parentArgs isInShadowRoot allPageObjects"
  define acc1 where "acc1 = AList.update (el_name element) processed parsedElements"
  define acc2 where
    "acc2 = processElements (el_elements element) (el_shadow element) (Some (el_name element))
              (e_effectiveArgs processed) allPageObjects acc1"
  have args: "e_effectiveArgs processed = parentArgs @ own_args element"
    unfolding processed_def by (rule processElementObject_args)
  have parent: "e_parent processed = parentName"
    unfolding processed_def by (rule processElementObject_parent)
  from "3.prems" have
    "map_of (processElements_forEach isInShadowRoot rest parentName parentArgs allPageObjects acc2) n
       = Some d"
    by (simp add: Let_def acc2_def acc1_def processed_def)
  then consider (here) "map_of acc2 n = Some d" | (later) "from_tree rest parentName parentArgs n d"
    using "3.IH"(2) [OF refl refl refl refl, of d]
    by (auto simp: acc2_def acc1_def processed_def)
  then show ?case
  proof cases
    case later
    then show ?thesis by (simp add: from_tree_rest)
  next
    case here
    then consider (own) "map_of acc1 n = Some d"
      | (below) "from_tree (el_elements element @ el_shadow element) (Some (el_name element))
                   (e_effectiveArgs processed) n d"
      using "3.IH"(1) [OF refl refl refl, of d]
      by (auto simp: acc2_def acc1_def processed_def)
    then show ?thesis
    proof cases
      case below
      then show ?thesis using from_tree_child [of element parentArgs n d rest parentName]
        by (simp add: args)
    next
      case own
      show ?thesis
      proof (cases "n = el_name element")
        case True
        with own have "d = processed" by (simp add: acc1_def update_conv')
        then show ?thesis using True args parent from_tree_self by blast
      next
        case False
        with own show ?thesis by (simp add: acc1_def update_conv')
      qed
    qed
  qed
qed



text \<open>
  Claim C3, as the code has it. Every entry that \<open>#processElements\<close> writes into the
  element map belongs to a root-first path of the ownership tree that ends in an element
  of that name, and its \<open>effectiveArgs\<close> is the list handed down to the fragment,
  followed by the contribution of every element on the path in root-to-leaf order: the
  element's own selector arguments and the arguments of its filter's matcher, for the
  ancestors as for the element itself. The list depends on the path only, so that a
  sibling subtree adds nothing to it.
\<close>

theorem C3_effectiveArgs_along_path:
  assumes "map_of (processElements els sh pn pa all acc) n = Some d"
    and "map_of acc n \<noteq> Some d"
  shows "\<exists>p \<in> set (paths (els @ sh)). el_name (last p) = n \<and>
           e_effectiveArgs d = pa @ concat (map own_args p) \<and> e_parent d = path_parent pn p"
  using processElements_sound(1) [OF assms(1)] assms(2) unfolding from_tree_def by simp

theorem C3_effectiveArgs_along_path_witness:
  "map_of (processElements [ex_rows] [] None [] [] []) ''cell'' = Some ex_cell_desc \<and>
   map_of [] ''cell'' \<noteq> Some ex_cell_desc \<and>
   (\<exists>p \<in> set (paths ([ex_rows] @ [])). el_name (last p) = ''cell'' \<and>
      e_effectiveArgs ex_cell_desc = [] @ concat (map own_args p) \<and>
      e_parent ex_cell_desc = path_parent None p)"
proof -
  have h1: "map_of (processElements [ex_rows] [] None [] [] []) ''cell'' = Some ex_cell_desc"
    by (simp add: ex_rows_def ex_cell_def ex_cell_desc_def processElementObject_def Let_def
          truthy_def empty_selector_def)
  have h2: "map_of ([] :: (string \<times> elementDesc) list) ''cell'' \<noteq> Some ex_cell_desc"
    by simp
  from C3_effectiveArgs_along_path [OF h1 h2] h1 h2 show ?thesis by blast
qed

text \<open>
  Claim C3 as stated fails: a list element with a filter hands the arguments of its
  matcher down to its children. The child \<open>cell\<close> of \<open>rows\<close> gets the argument
  \<open>label\<close> of the filter of \<open>rows\<close>, where the claim gives it no argument.
\<close>

theorem C3_counterexample:
  "map_option e_effectiveArgs (map_of (processElements [ex_rows] [] None [] [] []) ''cell'')
     = Some [ex_label] \<and>
   claimed_effectiveArgs [ex_rows, ex_cell] = []"
  by (simp add: ex_rows_def ex_cell_def processElementObject_def Let_def truthy_def
        empty_selector_def claimed_effectiveArgs_def own_selector_args_def own_filter_args_def)

section \<open>Properties of the method resolver\<close>

lemma cycle_A:
  "processMethod n ''utam/cycle'' (Declared 1) 0 ex_cycle_entered = Diverged \<Longrightarrow>
   processMethod (Suc n) ''utam/cycle'' (Declared 0) 0 ex_cycle_entered = Diverged"
  by (simp add: resolver_defs ex_cycle_entered_def ex_cycle_db_def new_db_def ex_cycle_def)

lemma cycle_B:
  "processMethod n ''utam/cycle'' (Declared 0) 0 ex_cycle_entered = Diverged \<Longrightarrow>
   processMethod (Suc n) ''utam/cycle'' (Declared 1) 0 ex_cycle_entered = Diverged"
  by (simp add: resolver_defs ex_cycle_entered_def ex_cycle_db_def new_db_def ex_cycle_def)

lemma cycle_both:
  "processMethod n ''utam/cycle'' (Declared 0) 0 ex_cycle_entered = Diverged \<and>
   processMethod n ''utam/cycle'' (Declared 1) 0 ex_cycle_entered = Diverged"
proof (induction n)
  case 0
  show ?case by simp
next
  case (Suc n)
  from Suc show ?case by (intro conjI cycle_A cycle_B) simp_all
qed

text \<open>
  Claim C1 at a definition set with two methods that apply each other. A method is
  written into the method map of the parsed page object only after \<open>#processMethod\<close>
  has returned, so that the test at its entry does not see a method that is being
  walked: \<open>A\<close> enters \<open>B\<close>, \<open>B\<close> enters \<open>A\<close> in the same state, and so on. However
  deep the calls may go, the resolution of the page object does not return.
\<close>

theorem C1_method_cycle_diverges: "parsePageObject n ''utam/cycle'' ex_cycle_db = Diverged"
proof (cases n)
  case 0
  then show ?thesis by simp
next
  case (Suc k)
  have "processMethods (processMethod k) ''utam/cycle'' 0 ex_cycle_entered = Diverged"
    using cycle_both [of k]
    by (simp add: processMethods_def ex_cycle_entered_def ex_cycle_db_def new_db_def
          ex_cycle_def bindR_def upt_rec)
  then show ?thesis
    by (simp add: Suc parsePageObject_body_def parsePageObject_of_def cache_write_def
          prop_read_def prototype_keys_def ex_cycle_entered_def ex_cycle_db_def new_db_def
          ex_cycle_def bindR_def processDescription_def)
qed

text \<open>
  The same across page objects: \<open>#parsePageObject\<close> does not look into the cache, so
  a chain step into the page object that is being parsed parses it again, and again.
\<close>

lemma chain_cycle_step:
  assumes "allPageObjects st = [(''utam/node'', ex_node)]"
    and "\<And>st'. allPageObjects st' = [(''utam/node'', ex_node)] \<Longrightarrow>
            parsePageObject k ''utam/node'' st' = Diverged"
  shows "parsePageObject (Suc (Suc k)) ''utam/node'' st = Diverged"
  using assms
  by (simp add: parsePageObject_body_def parsePageObject_of_def cache_write_def
        prop_read_def prototype_keys_def processMethods_def resolver_defs ex_node_def upt_rec
        processElementObject_def processDescription_def DataTypes_defs refType_def refName_def
        empty_selector_def getElementGetterMethodName_def nth_append)

lemma chain_cycle_diverges:
  "allPageObjects st = [(''utam/node'', ex_node)] \<Longrightarrow>
     parsePageObject n ''utam/node'' st = Diverged"
proof (induction n arbitrary: st rule: less_induct)
  case (less n)
  show ?case
  proof (cases n)
    case 0
    then show ?thesis by simp
  next
    case (Suc m)
    show ?thesis
    proof (cases m)
      case 0
      with Suc less.prems show ?thesis
        by (simp add: parsePageObject_body_def parsePageObject_of_def cache_write_def
        prop_read_def prototype_keys_def processMethods_def ex_node_def upt_rec bindR_def)
    next
      case (Suc k)
      have "parsePageObject (Suc (Suc k)) ''utam/node'' st = Diverged"
        using less.prems
      proof (rule chain_cycle_step)
        fix st' :: db
        assume "allPageObjects st' = [(''utam/node'', ex_node)]"
        then show "parsePageObject k ''utam/node'' st' = Diverged"
          using less.IH [of k st'] \<open>n = Suc m\<close> Suc by simp
      qed
      with \<open>n = Suc m\<close> Suc show ?thesis by simp
    qed
  qed
qed

lemma chain_cycle_diverges_from_start:
  "parsePageObject n ''utam/node'' (new_db [(''utam/node'', ex_node)]) = Diverged"
  by (rule chain_cycle_diverges) (simp add: new_db_def)

text \<open>
  Resolution does return on the example of the specification, with the elements
  \<open>root\<close> and \<open>btn\<close> and the method \<open>clickIt\<close> of type \<open>void\<close>.
\<close>

lemma example_of_the_specification:
  "map_option (\<lambda>p. map fst (p_elements p))
     (case parsePageObject 2 ''utam/A'' (new_db [(''utam/A'', ex_spec)]) of
        Returned (a, st) \<Rightarrow> Some (objs st ! a) | _ \<Rightarrow> None)
     = Some [''root'', ''btn''] \<and>
   map_option (\<lambda>d. (d_type d, map refName (d_elements d), d_effectiveArgs d))
     (parsedMethod (parsePageObject 2 ''utam/A'' (new_db [(''utam/A'', ex_spec)])) ''clickIt'')
     = Some (TStr ''void'', [Some ''btn''], [])"
  by code_simp

text \<open>
  Claim C2 at the page object \<open>utam/B\<close>. The first resolution gives its method the
  arguments \<open>d, x\<close> and puts the page object into the cache. The second resolution of the
  same URI is not answered from the cache: it parses again, into a new object, and
  since the first one has pushed \<open>x\<close> onto the \<open>args\<close> array of the raw definition, the
  method now has the arguments \<open>d, x, x\<close>.
\<close>

theorem C2_second_resolution_differs:
  "map_option d_effectiveArgs
     (parsedMethod (parsePageObject 2 ''utam/B'' (new_db [(''utam/B'', ex_B)])) ''m'')
     = Some [ex_d, ex_x] \<and>
   map_of (parsedPageObjectCache
             (db_after (parsePageObject 2 ''utam/B'' (new_db [(''utam/B'', ex_B)])))) ''utam/B''
     = Some 0 \<and>
   returned_ref
     (parsePageObject 2 ''utam/B''
        (db_after (parsePageObject 2 ''utam/B'' (new_db [(''utam/B'', ex_B)]))))
     = Some 1 \<and>
   map_option d_effectiveArgs
     (parsedMethod
        (parsePageObject 2 ''utam/B''
           (db_after (parsePageObject 2 ''utam/B'' (new_db [(''utam/B'', ex_B)])))) ''m'')
     = Some [ex_d, ex_x, ex_x]"
  by code_simp

text \<open>
  The same within one pass of \<open>reloadDatabase\<close>: when \<open>utam/A\<close> chains into \<open>utam/B\<close>,
  the pass parses \<open>utam/B\<close> twice and the cache ends with the arguments \<open>d, x, x\<close>;
  loaded alone, \<open>utam/B\<close> ends with \<open>d, x\<close>.
\<close>

lemma reload_parses_chained_page_object_twice:
  "map_option d_effectiveArgs
     (cachedMethod
        (db_after (reloadDatabase 4 [(''one.jar'', [(''utam/A'', ex_A), (''utam/B'', ex_B)])]
                     (new_db [])))
        ''utam/B'' ''m'')
     = Some [ex_d, ex_x, ex_x] \<and>
   map_option d_effectiveArgs
     (cachedMethod
        (db_after (reloadDatabase 4 [(''one.jar'', [(''utam/B'', ex_B)])] (new_db [])))
        ''utam/B'' ''m'')
     = Some [ex_d, ex_x]"
  by code_simp





text \<open>What the chain step of \<open>viaChain\<close> and the one of \<open>first\<close> look up.\<close>

lemma chain_switches_lookups:
  "map_option (\<lambda>d. (d_type d, map (map_option (\<lambda>e. css (e_selector e))) (d_elements d)))
     (parsedMethod (parsePageObject 3 ''utam/chain'' ex_chain_db) ''viaChain'')
     = Some (TStr ''number'', [Some (Some ''.sub''), Some (Some ''.target-item'')]) \<and>
   map_option (\<lambda>d. (d_type d, map (map_option (\<lambda>e. css (e_selector e))) (d_elements d)))
     (parsedMethod (parsePageObject 3 ''utam/chain'' ex_chain_db) ''first'')
     = Some (TStr ''string'', [Some (Some ''.own-item'')])"
  by code_simp

text \<open>
  A type that names a property inherited from \<open>Object.prototype\<close> is no key of the
  definition set, but the read \<open>allPageObjects[lastStepReturnType]\<close> finds the
  inherited value: the chain step of \<open>viaConstructor\<close> logs nothing, a page object
  \<open>constructor\<close> without elements is resolved, and the element the step names is
  looked up there and not found. The method \<open>send\<close> ends with the type and the element
  of \<open>submit\<close> in \<open>utam/form\<close>.
\<close>

lemma chain_into_inherited_property:
  "prop_read (allPageObjects ex_caller_db) ''constructor'' = Inherited \<and>
   map_option (\<lambda>d. (d_type d, map refName (d_elements d)))
     (parsedMethod (parsePageObject 6 ''utam/caller'' ex_caller_db) ''viaConstructor'')
     = Some (TStr ''basic'', [Some ''ctor'', None]) \<and>
   map_option (\<lambda>d. (d_type d, map refName (d_elements d), d_lastStepApply d))
     (parsedMethod (parsePageObject 6 ''utam/caller'' ex_caller_db) ''send'')
     = Some (TStr ''boolean'', [Some ''form'', Some ''button''], AStr ''submit'') \<and>
   console (db_after (parsePageObject 6 ''utam/caller'' ex_caller_db)) = [] \<and>
   map p_uri (objs (db_after (parsePageObject 6 ''utam/caller'' ex_caller_db)))
     = [''utam/caller'', ''utam/form'', ''constructor'']"
  by code_simp

text \<open>
  Claim C5 at the method of \<open>utam/page\<close>. Its second step chains into
  \<open>utam/missing\<close>; the diagnostic is logged, but only that step is left out: the third
  step is processed, and the method ends with the type and the last apply of the third
  step and with the element \<open>other\<close> among its referenced elements.
\<close>

theorem C5_later_steps_are_processed:
  "console (db_after (parsePageObject 2 ''utam/page'' (new_db [(''utam/page'', ex_missing)])))
     = [abort_message ''m'' ''utam/page'' ''utam/missing''] \<and>
   map_option (\<lambda>d. (d_type d, map refName (d_elements d), d_lastStepApply d))
     (parsedMethod (parsePageObject 2 ''utam/page'' (new_db [(''utam/page'', ex_missing)])) ''m'')
     = Some (TStr ''boolean'', [Some ''link'', Some ''other''], AStr ''isVisible'')"
  by code_simp

(* C4 *)




section \<open>Properties of the database facade\<close>

lemma reloadDatabase_count:
  "reloadDatabase fuel settings_pageObjects this = Returned (n, st) \<Longrightarrow>
     n = length (parsedPageObjectCache st)"
  by (auto simp: reloadDatabase_def bindR_def Let_def split: res.splits)

text \<open>
  Claim C9 at two artifacts that both hold the URI \<open>utam/app\<close>. The definition of the
  artifact imported last is the one in use. \<open>reloadDatabase\<close> pushes a URI for every
  artifact in which its definition is a root: when the first definition is a root and
  the second is not, \<open>rootPageObjectUris\<close> names a URI whose definition in use does not
  declare \<open>root\<close>; when both are roots, it names the URI twice. The count is the
  number of URIs in the cache.
\<close>

theorem C9_roots_of_overridden_definitions:
  "reloaded (reloadDatabase 1 [(''first.jar'', [(''utam/app'', ex_root_po)]),
                               (''second.jar'', [(''utam/app'', ex_plain_po)])] (new_db []))
     = Some (1, [''utam/app''], [''utam/app'']) \<and>
   map_option po_root
     (map_of (allPageObjects
                (db_after (reloadDatabase 1 [(''first.jar'', [(''utam/app'', ex_root_po)]),
                                             (''second.jar'', [(''utam/app'', ex_plain_po)])]
                             (new_db []))))
        ''utam/app'')
     = Some False \<and>
   reloaded (reloadDatabase 1 [(''first.jar'', [(''utam/app'', ex_root_po)]),
                               (''second.jar'', [(''utam/app'', ex_root_po),
                                                 (''utam/a'', ex_root_po)])] (new_db []))
     = Some (2, [''utam/a'', ''utam/app'', ''utam/app''], [''utam/app'', ''utam/a''])"
  by code_simp

section \<open>Properties of the live element walker\<close>

lemma filterR_Returned:
  "filterR f xs = Returned ys \<Longrightarrow> ys = filter (\<lambda>x. f x = Returned True) xs"
proof (induction xs arbitrary: ys)
  case Nil
  then show ?case by simp
next
  case (Cons x xs)
  then show ?case
    by (auto simp: bindR_def split: res.splits if_splits)
qed

lemma getFilterInfo_args:
  "getFilterInfo fuel resolver ed args = Returned (Some fi) \<Longrightarrow>
     set (fi_args fi) \<subseteq> {a \<in> set args. truthy (arg_value a)}"
  by (auto simp: getFilterInfo_def bindR_def split: option.splits if_splits res.splits)








lemma first_match_cases:
  "(case (if fs \<noteq> [] then fs else elements) of [] \<Rightarrow> None | x # xs \<Rightarrow> Some x) =
   (case fs of [] \<Rightarrow> (case elements of [] \<Rightarrow> None | x # xs \<Rightarrow> Some x) | y # ys \<Rightarrow> Some y)"
  by (cases fs) simp_all











text \<open>
  A filter whose matcher has no \<open>args\<close>: \<open>#getFilterInfo\<close> reads
  \<open>matcher.args.map\<close> and throws, and so does the walk.
\<close>

lemma matcher_without_args_raises:
  "getFilterInfo 1 ex_resolver (Some ex_visible) [] = Raised TypeError \<and>
   walkElements ex_list_dom 1 ex_resolver (Some 0) (ElementMember ex_visible) 0 [] [[]]
     = Raised TypeError"
  by code_simp

text \<open>
  After an empty result of the filter, \<open>getElement\<close> keeps the unfiltered matches
  and returns the first of them.
\<close>

lemma getElement_falls_back_to_first_match:
  "getElement ex_list_dom (Some ex_fruit) 0 (Some ex_filterInfo_unbound) (Some 0) [[ex_label_unbound]]
     = Returned (Some 1, [[ex_label_unbound]])"
  by code_simp

text \<open>
  Claim C7 at the element \<open>item\<close> declared under \<open>list\<close>. The walker builds the path
  with the ancestor \<open>list\<close>, but it resolves an ancestor only inside the test of
  \<open>pathSegment.selector.args\<close>: \<open>list\<close> has no selector arguments and is never
  resolved, and \<open>item\<close> is looked up under the node the walk started from. The walk
  returns node 1, the item outside of the list; resolved against the node of its
  ancestor, node 2, the element is node 3.
\<close>

theorem C7_ancestor_without_args_is_skipped:
  "map_of ex_list_elements ''item'' = Some ex_item \<and>
   elementPath 2 ex_list_elements ex_item = Returned [ex_list] \<and>
   walkElements ex_nested_dom 2 (\<lambda>u. None) (Some 0) (ElementMember ex_item) 0
     ex_list_elements [[]] = Returned (Some 1, [[]]) \<and>
   getElement ex_nested_dom (Some ex_list) 0 None (Some 0) [[]] = Returned (Some 2, [[]]) \<and>
   getElement ex_nested_dom (Some ex_item) 0 None (Some 2) [[]] = Returned (Some 3, [[]])"
  by code_simp

subsection \<open>The argument array of the caller\<close>

lemma getElement_effect:
  assumes "getElement d elementDescriptor args filterInfo parentNode h = Returned (el, h')"
  shows "h' = (case (parentNode, elementDescriptor) of
                 (Some pn, Some ed) \<Rightarrow> spliced ed args h
               | _ \<Rightarrow> h)"
  using assms
  by (auto simp: getElement_def spliced_def bindR_def Let_def
           split: option.splits if_splits res.splits)

lemma spliced_length: "length (spliced ed args h) = length h"
  by (simp add: spliced_def splice0_def split: option.splits)

lemma spliced_other: "b \<noteq> args \<Longrightarrow> spliced ed args h ! b = h ! b"
  by (simp add: spliced_def splice0_def split: option.splits)

lemma getElement_length:
  "getElement d ed args fi pn h = Returned (el, h') \<Longrightarrow> length h' = length h"
  by (drule getElement_effect) (simp add: spliced_length split: option.splits)

lemma getElement_other:
  "getElement d ed args fi pn h = Returned (el, h') \<Longrightarrow> b \<noteq> args \<Longrightarrow> h' ! b = h ! b"
  by (drule getElement_effect) (simp add: spliced_other split: option.splits)

lemma getElement_no_descriptor:
  "getElement d None args fi pn h = Returned (el, h') \<Longrightarrow> h' = h"
  by (drule getElement_effect) (simp split: option.splits)

lemma forEachR_invariant:
  assumes "forEachR f xs s = Returned s'" and "I s"
    and "\<And>x t t'. I t \<Longrightarrow> f x t = Returned t' \<Longrightarrow> I t'"
  shows "I s'"
  using assms(1,2)
proof (induction xs arbitrary: s)
  case Nil
  then show ?case by simp
next
  case (Cons x xs)
  from Cons.prems(1) obtain t where t: "f x s = Returned t" and rest: "forEachR f xs t = Returned s'"
    by (auto simp: bindR_def split: res.splits)
  from assms(3) [OF Cons.prems(2) t] have "I t" .
  with rest show ?case by (rule Cons.IH)
qed

lemma walkMethodElement_keeps:
  assumes "walkMethodElement d fuel r re (cur, args, h) = Returned (cur', args', h')"
    and "a < length h"
  shows "a < length h' \<and> h' ! a = h ! a"
proof (cases re)
  case None
  with assms(1) obtain fi where
    "getElement d None args fi cur h = Returned (cur', h')"
    by (auto simp: walkMethodElement_def bindR_def split: res.splits prod.splits)
  then have "h' = h" by (rule getElement_no_descriptor)
  with assms(2) show ?thesis by simp
next
  case (Some ed)
  define k where "k = length (e_effectiveArgs ed)"
  define h2 where
    "h2 = (h @ [take k (h ! args)]) @ [drop k ((h @ [take k (h ! args)]) ! args)]"
  from assms(1) Some obtain fi where
    g: "getElement d (Some ed) (length h) fi cur h2 = Returned (cur', h')"
    by (auto simp: walkMethodElement_def bindR_def slice_to_def slice_from_def k_def h2_def
             split: res.splits prod.splits)
  from g have "length h' = length h2" by (rule getElement_length)
  moreover from g assms(2) have "h' ! a = h2 ! a" by (intro getElement_other) auto
  moreover have "h2 ! a = h ! a" using assms(2) by (simp add: h2_def nth_append)
  moreover have "length h2 = length h + 2" by (simp add: h2_def)
  ultimately show ?thesis using assms(2) by simp
qed

lemma walkMethod_keeps:
  assumes "forEachR (walkMethodElement d fuel r) xs (cur, args, h) = Returned (cur', args', h')"
    and "a < length h"
  shows "h' ! a = h ! a"
proof -
  define I where "I = (\<lambda>s :: node option \<times> nat \<times> store.
      a < length (snd (snd s)) \<and> snd (snd s) ! a = h ! a)"
  have "I (cur', args', h')"
  proof (rule forEachR_invariant [OF assms(1)])
    show "I (cur, args, h)" using assms(2) by (simp add: I_def)
  next
    fix x t t'
    assume "I t" and "walkMethodElement d fuel r x t = Returned t'"
    then show "I t'"
      using walkMethodElement_keeps [of d fuel r x "fst t" "fst (snd t)" "snd (snd t)"
          "fst t'" "fst (snd t')" "snd (snd t')" a]
      by (simp add: I_def)
  qed
  then show ?thesis by (simp add: I_def)
qed

lemma walkPathSegment_step:
  assumes "walkPathSegment d fuel r seg (cur, args, h) = Returned (cur', args', h')"
    and "a < length h"
  shows "a < length h' \<and> h' ! a = h ! a \<and>
         (case sel_args (e_selector seg) of
            None \<Rightarrow> args' = args \<and> h' = h \<and> cur' = cur
          | Some sa \<Rightarrow> args' \<noteq> a)"
proof (cases "sel_args (e_selector seg)")
  case None
  with assms show ?thesis by (simp add: walkPathSegment_def)
next
  case (Some sa)
  define k where "k = length sa"
  define h2 where
    "h2 = (h @ [take k (h ! args)]) @ [drop k ((h @ [take k (h ! args)]) ! args)]"
  from assms(1) Some obtain fi where
    g: "getElement d (Some seg) (length h) fi cur h2 = Returned (cur', h')"
    and a': "args' = Suc (length h)"
    by (auto simp: walkPathSegment_def bindR_def slice_to_def slice_from_def k_def h2_def
             split: res.splits prod.splits)
  from g have "length h' = length h2" by (rule getElement_length)
  moreover from g assms(2) have "h' ! a = h2 ! a" by (intro getElement_other) auto
  moreover have "h2 ! a = h ! a" using assms(2) by (simp add: h2_def nth_append)
  moreover have "length h2 = length h + 2" by (simp add: h2_def)
  ultimately show ?thesis using assms(2) a' Some by simp
qed

lemma walkPath_keeps:
  assumes "forEachR (walkPathSegment d fuel r) xs (cur, args, h) = Returned (cur', args', h')"
    and "a < length h"
  shows "a < length h' \<and> h' ! a = h ! a \<and>
         (args \<noteq> a \<or> (\<exists>seg \<in> set xs. sel_args (e_selector seg) \<noteq> None) \<longrightarrow> args' \<noteq> a) \<and>
         ((\<forall>seg \<in> set xs. sel_args (e_selector seg) = None) \<longrightarrow>
            args' = args \<and> h' = h \<and> cur' = cur)"
  using assms
proof (induction xs arbitrary: cur args h)
  case Nil
  then show ?case by simp
next
  case (Cons seg xs)
  from Cons.prems(1) obtain cur1 args1 h1 where
    step: "walkPathSegment d fuel r seg (cur, args, h) = Returned (cur1, args1, h1)"
    and rest: "forEachR (walkPathSegment d fuel r) xs (cur1, args1, h1) = Returned (cur', args', h')"
    by (auto simp: bindR_def split: res.splits)
  note s = walkPathSegment_step [OF step Cons.prems(2)]
  from s have a1: "a < length h1" and v1: "h1 ! a = h ! a" by simp_all
  note r = Cons.IH [OF rest a1]
  show ?case
  proof (cases "sel_args (e_selector seg)")
    case None
    with s have "args1 = args" "h1 = h" "cur1 = cur" by simp_all
    with r None show ?thesis by auto
  next
    case (Some sa)
    with s have "args1 \<noteq> a" by simp
    with r v1 Some show ?thesis by auto
  qed
qed

text \<open>
  Claim C10, as the code has it. Without a parent node \<open>getElement\<close> returns
  \<open>null\<close> and leaves the store as it is. With a parent node and a descriptor, a call
  that returns has removed the leading entries of the array it was given, as many as
  the \<open>css\<close> has markers, when there are markers and the array is not empty, and has
  changed nothing else. \<open>walkElements\<close> hands the array of its caller to
  \<open>getElement\<close> only for an element none of whose ancestors has selector arguments:
  then the caller's array has lost those entries. For a method, and for an element
  with an ancestor that has selector arguments, \<open>getElement\<close> works on copies made by
  \<open>slice\<close>, and the caller's array is unchanged. Descriptors are values that the walk
  reads; it returns a node and the store only.
\<close>

theorem C10_caller_array:
  "getElement d elementDescriptor a filterInfo None h = Returned (None, h) \<and>
   (getElement d (Some ed) a filterInfo (Some pn) h = Returned (el, h') \<longrightarrow>
      h' = spliced ed a h) \<and>
   (a < length h \<and>
    walkElements d fuel r parentElement (MethodMember m) a coll h = Returned (el, h') \<longrightarrow>
      h' ! a = h ! a) \<and>
   (a < length h \<and> elementPath fuel coll e = Returned path \<and>
    (\<exists>seg \<in> set path. sel_args (e_selector seg) \<noteq> None) \<and>
    walkElements d fuel r parentElement (ElementMember e) a coll h = Returned (el, h') \<longrightarrow>
      h' ! a = h ! a) \<and>
   (a < length h \<and> elementPath fuel coll e = Returned path \<and>
    (\<forall>seg \<in> set path. sel_args (e_selector seg) = None) \<and>
    walkElements d fuel r (Some pn) (ElementMember e) a coll h = Returned (el, h') \<longrightarrow>
      h' = spliced e a h)"
proof (intro conjI impI)
  show "getElement d elementDescriptor a filterInfo None h = Returned (None, h)"
    by (simp add: getElement_def)
next
  assume "getElement d (Some ed) a filterInfo (Some pn) h = Returned (el, h')"
  from getElement_effect [OF this] show "h' = spliced ed a h" by simp
next
  assume p: "a < length h \<and>
    walkElements d fuel r parentElement (MethodMember m) a coll h = Returned (el, h')"
  then obtain args1 where
    "forEachR (walkMethodElement d fuel r) (d_elements m) (parentElement, a, h)
       = Returned (el, args1, h')"
    by (auto simp: walkElements_def bindR_def split: res.splits prod.splits)
  from walkMethod_keeps [OF this] p show "h' ! a = h ! a" by simp
next
  assume p: "a < length h \<and> elementPath fuel coll e = Returned path \<and>
    (\<exists>seg \<in> set path. sel_args (e_selector seg) \<noteq> None) \<and>
    walkElements d fuel r parentElement (ElementMember e) a coll h = Returned (el, h')"
  then obtain cur1 args1 h1 fi where
    w: "forEachR (walkPathSegment d fuel r) path (parentElement, a, h) = Returned (cur1, args1, h1)"
    and g: "getElement d (Some e) args1 fi cur1 h1 = Returned (el, h')"
    by (auto simp: walkElements_def bindR_def split: res.splits prod.splits)
  from p have al: "a < length h" by simp
  from walkPath_keeps [OF w al] p have "args1 \<noteq> a" and "h1 ! a = h ! a" by auto
  with getElement_other [OF g, of a] show "h' ! a = h ! a" by simp
next
  assume p: "a < length h \<and> elementPath fuel coll e = Returned path \<and>
    (\<forall>seg \<in> set path. sel_args (e_selector seg) = None) \<and>
    walkElements d fuel r (Some pn) (ElementMember e) a coll h = Returned (el, h')"
  then obtain cur1 args1 h1 fi where
    w: "forEachR (walkPathSegment d fuel r) path (Some pn, a, h) = Returned (cur1, args1, h1)"
    and g: "getElement d (Some e) args1 fi cur1 h1 = Returned (el, h')"
    by (auto simp: walkElements_def bindR_def split: res.splits prod.splits)
  from p have al: "a < length h" by simp
  from walkPath_keeps [OF w al] p have "args1 = a" "h1 = h" "cur1 = Some pn" by auto
  with getElement_effect [OF g] show "h' = spliced e a h" by simp
qed

theorem C10_caller_array_witness:
  "getElement ex_rows_dom (Some ex_row) 0 None None [[ex_five]] = Returned (None, [[ex_five]]) \<and>
   getElement ex_rows_dom (Some ex_row) 0 None (Some 0) [[ex_five]] = Returned (Some 5, [[]]) \<and>
   [[]] = spliced ex_row 0 [[ex_five]] \<and>
   (0 :: nat) < length [[ex_five]] \<and>
   walkElements ex_rows_dom 2 (\<lambda>u. None) (Some 0) (MethodMember ex_pick) 0 [] [[ex_five]]
     = Returned (Some 5, [[ex_five], [], []]) \<and>
   [[ex_five], [], []] ! 0 = [[ex_five]] ! 0 \<and>
   (0 :: nat) < length [[ex_five, ex_seven]] \<and>
   elementPath 2 ex_table_elements ex_table_cell = Returned [ex_table] \<and>
   sel_args (e_selector ex_table) \<noteq> None \<and>
   walkElements ex_rows_dom 2 (\<lambda>u. None) (Some 0) (ElementMember ex_table_cell) 0 ex_table_elements
     [[ex_five, ex_seven]] = Returned (Some 7, [[ex_five, ex_seven], [], []]) \<and>
   [[ex_five, ex_seven], [], []] ! 0 = [[ex_five, ex_seven]] ! 0 \<and>
   elementPath 2 ex_listrow_elements ex_listrow_row = Returned [ex_listrow_list] \<and>
   sel_args (e_selector ex_listrow_list) = None \<and>
   walkElements ex_rows_dom 2 (\<lambda>u. None) (Some 0) (ElementMember ex_listrow_row) 0
     ex_listrow_elements [[ex_five]] = Returned (Some 5, [[]]) \<and>
   [[]] = spliced ex_listrow_row 0 [[ex_five]]"
proof -
  have b: "getElement ex_rows_dom (Some ex_row) 0 None (Some 0) [[ex_five]]
      = Returned (Some 5, [[]])" by code_simp
  have c0: "(0 :: nat) < length [[ex_five]]" by simp
  have c: "walkElements ex_rows_dom 2 (\<lambda>u. None) (Some 0) (MethodMember ex_pick) 0 []
      [[ex_five]] = Returned (Some 5, [[ex_five], [], []])" by code_simp
  have e0: "(0 :: nat) < length [[ex_five, ex_seven]]" by simp
  have e1: "elementPath 2 ex_table_elements ex_table_cell = Returned [ex_table]" by code_simp
  have e2: "sel_args (e_selector ex_table) \<noteq> None" by code_simp
  then have e2': "\<exists>seg \<in> set [ex_table]. sel_args (e_selector seg) \<noteq> None" by simp
  have e3: "walkElements ex_rows_dom 2 (\<lambda>u. None) (Some 0) (ElementMember ex_table_cell) 0
      ex_table_elements [[ex_five, ex_seven]]
      = Returned (Some 7, [[ex_five, ex_seven], [], []])" by code_simp
  have d1: "elementPath 2 ex_listrow_elements ex_listrow_row = Returned [ex_listrow_list]"
    by code_simp
  have d2: "sel_args (e_selector ex_listrow_list) = None" by code_simp
  then have d2': "\<forall>seg \<in> set [ex_listrow_list]. sel_args (e_selector seg) = None" by simp
  have d3: "walkElements ex_rows_dom 2 (\<lambda>u. None) (Some 0) (ElementMember ex_listrow_row) 0
      ex_listrow_elements [[ex_five]] = Returned (Some 5, [[]])" by code_simp
  note T1 = C10_caller_array [where d = ex_rows_dom and elementDescriptor = "Some ex_row"
      and a = 0 and filterInfo = None and h = "[[ex_five]]" and ed = ex_row and pn = 0
      and el = "Some 5" and h' = "[[]]"]
  note T2 = C10_caller_array [where d = ex_rows_dom and a = 0 and h = "[[ex_five]]"
      and fuel = 2 and r = "\<lambda>u. None" and parentElement = "Some 0" and m = ex_pick
      and coll = "[]" and el = "Some 5" and h' = "[[ex_five], [], []]"]
  note T3 = C10_caller_array [where d = ex_rows_dom and a = 0 and h = "[[ex_five, ex_seven]]"
      and fuel = 2 and r = "\<lambda>u. None" and parentElement = "Some 0" and e = ex_table_cell
      and coll = ex_table_elements and path = "[ex_table]" and el = "Some 7"
      and h' = "[[ex_five, ex_seven], [], []]"]
  note T4 = C10_caller_array [where d = ex_rows_dom and a = 0 and h = "[[ex_five]]"
      and fuel = 2 and r = "\<lambda>u. None" and pn = 0 and e = ex_listrow_row
      and coll = ex_listrow_elements and path = "[ex_listrow_list]" and el = "Some 5"
      and h' = "[[]]"]
  from T1 have r1: "getElement ex_rows_dom (Some ex_row) 0 None None [[ex_five]]
      = Returned (None, [[ex_five]])" by blast
  from T1 b have r2: "[[]] = spliced ex_row 0 [[ex_five]]" by blast
  from T2 c0 c have r3: "[[ex_five], [], []] ! 0 = [[ex_five]] ! 0" by blast
  from T3 e0 e1 e2' e3 have r4: "[[ex_five, ex_seven], [], []] ! 0 = [[ex_five, ex_seven]] ! 0"
    by blast
  from T4 c0 d1 d2' d3 have r5: "[[]] = spliced ex_listrow_row 0 [[ex_five]]" by blast
  from r1 b r2 c0 c r3 e0 e1 e2 e3 r4 d1 d2 d3 r5 show ?thesis by blast
qed

text \<open>
  Claim C10 as stated fails for a method: the selector of its element has a marker and
  the argument array is not empty, but after \<open>walkElements\<close> the caller's array, at
  reference 0, still holds its entry; the copy at reference 1 has lost it. It also
  fails for \<open>getElement\<close> without a parent node.
\<close>

theorem C10_counterexample:
  "css (e_selector ex_row) = Some ''.row-%s'' \<and> paramMarkers ''.row-%s'' = [''%s''] \<and>
   walkElements ex_rows_dom 2 (\<lambda>u. None) (Some 0) (MethodMember ex_pick) 0 [] [[ex_five]]
     = Returned (Some 5, [[ex_five], [], []]) \<and>
   getElement ex_rows_dom (Some ex_row) 0 None None [[ex_five]] = Returned (None, [[ex_five]])"
  by code_simp

end
